theory Spec2Isabelle
  imports Complex_Main "HOL-Library.AList"
begin

section \<open>Python values used by the services\<close>

text \<open>
  Exceptions are values.  \<open>Exception\<close> is the base class raised by the code itself,
  \<open>ExternalError\<close> stands for any exception raised by a collaborator outside the
  repository (the embedding model, an LLM client); \<open>err_str\<close> is Python's \<open>str(e)\<close>.
\<close>

datatype error =
    ValueError string
  | KeyError string
  | ZeroDivisionError string
  | ValidationError string
  | Exception string
  | ExternalError string

fun err_str :: "error \<Rightarrow> string" where
  "err_str (ValueError m) = m"
| "err_str (KeyError k) = [CHR 0x27] @ k @ [CHR 0x27]"
| "err_str (ZeroDivisionError m) = m"
| "err_str (ValidationError m) = m"
| "err_str (Exception m) = m"
| "err_str (ExternalError m) = m"

text \<open>
  Strings are lists of characters; a character is read as a code point below 256.
  \<open>is_space\<close> is \<open>str.isspace\<close> on that range, \<open>py_split\<close> is \<open>str.split()\<close>
  without arguments (runs of whitespace separate words, no empty word is produced),
  \<open>py_join\<close> is \<open>sep.join(xs)\<close>.
\<close>

definition is_space :: "char \<Rightarrow> bool" where
  "is_space c = (c \<in> set [CHR 0x09, CHR 0x0A, CHR 0x0B, CHR 0x0C, CHR 0x0D,
                          CHR 0x1C, CHR 0x1D, CHR 0x1E, CHR 0x1F, CHR 0x20,
                          CHR 0x85, CHR 0xA0])"

fun split_ws :: "string \<Rightarrow> string \<Rightarrow> string list" where
  "split_ws cur [] = (if cur = [] then [] else [cur])"
| "split_ws cur (c # cs) =
     (if is_space c then (if cur = [] then split_ws [] cs else cur # split_ws [] cs)
      else split_ws (cur @ [c]) cs)"

definition py_split :: "string \<Rightarrow> string list" where
  "py_split s = split_ws [] s"

fun py_join :: "string \<Rightarrow> string list \<Rightarrow> string" where
  "py_join sep [] = []"
| "py_join sep [x] = x"
| "py_join sep (x # y # ys) = x @ sep @ py_join sep (y # ys)"

text \<open>
  \<open>py_range start stop step\<close> lists what \<open>range(start, stop, step)\<close> iterates over for a
  non-zero step (a zero step raises before the loop starts; the callers check it).
  \<open>py_slice xs lo hi\<close> is \<open>xs[lo:hi]\<close>: a negative bound counts from the end and both
  bounds are clipped to the list.
\<close>

function py_range :: "int \<Rightarrow> int \<Rightarrow> int \<Rightarrow> int list" where
  "py_range i stop step =
     (if 0 < step \<and> i < stop then i # py_range (i + step) stop step
      else if step < 0 \<and> stop < i then i # py_range (i + step) stop step
      else [])"
  by pat_completeness auto
termination
  by (relation "measure (\<lambda>(i, stop, step). nat (if 0 < step then stop - i else i - stop))") auto

declare py_range.simps [simp del]

definition slice_bound :: "nat \<Rightarrow> int \<Rightarrow> nat" where
  "slice_bound n i = (if i < 0 then nat (max 0 (int n + i)) else min (nat i) n)"

definition py_slice :: "'a list \<Rightarrow> int \<Rightarrow> int \<Rightarrow> 'a list" where
  "py_slice xs lo hi =
     (let l = slice_bound (length xs) lo; h = slice_bound (length xs) hi
      in take (h - l) (drop l xs))"

section \<open>Chunker: \<open>RAGService._chunk_transcript\<close>\<close>

definition chunk_transcript :: "string \<Rightarrow> int \<Rightarrow> error + string list" where
  "chunk_transcript transcript chunk_size =
     (let words = py_split transcript in
      if chunk_size = 0 then Inl (ValueError ''range() arg 3 must not be zero'')
      else Inr (map (\<lambda>i. py_join '' '' (py_slice words i (i + chunk_size)))
                    (py_range 0 (int (length words)) chunk_size)))"


text \<open>
  Numbers in text: \<open>str_nat\<close> is the decimal rendering of a non-negative integer
  (an f-string \<open>{i}\<close>), \<open>fmt_04d\<close> is the format \<open>{n:04d}\<close>, \<open>py_int\<close> is \<open>int(x)\<close>
  on a float (truncation towards zero).  Floats are read as real numbers.
\<close>

definition digit_char :: "nat \<Rightarrow> char" where
  "digit_char d = ''0123456789'' ! d"

fun str_nat :: "nat \<Rightarrow> string" where
  "str_nat n = (if n < 10 then [digit_char n] else str_nat (n div 10) @ [digit_char (n mod 10)])"

declare str_nat.simps [simp del]

definition zero_pad :: "nat \<Rightarrow> string \<Rightarrow> string" where
  "zero_pad w s = replicate (w - length s) (CHR ''0'') @ s"

definition fmt_04d :: "int \<Rightarrow> string" where
  "fmt_04d n = (if 0 \<le> n then zero_pad 4 (str_nat (nat n))
                else ''-'' @ zero_pad 3 (str_nat (nat (- n))))"

definition py_int :: "real \<Rightarrow> int" where
  "py_int x = (if 0 \<le> x then \<lfloor>x\<rfloor> else \<lceil>x\<rceil>)"

fun starts_with :: "string \<Rightarrow> string \<Rightarrow> bool" where
  "starts_with s [] = True"
| "starts_with [] (p # ps) = False"
| "starts_with (c # cs) (p # ps) = (c = p \<and> starts_with cs ps)"

fun str_contains :: "string \<Rightarrow> string \<Rightarrow> bool" where
  "str_contains [] p = (p = [])"
| "str_contains (c # cs) p = (starts_with (c # cs) p \<or> str_contains cs p)"

section \<open>Settings and models (\<open>config.py\<close>, \<open>video.py\<close>)\<close>

definition FRAME_EXTRACTION_RATE :: int where
  "FRAME_EXTRACTION_RATE = 1"

definition MAX_FRAMES_PER_VIDEO :: int where
  "MAX_FRAMES_PER_VIDEO = 300"

definition LLM_MODEL :: string where
  "LLM_MODEL = ''gpt-4-vision-preview''"

text \<open>A \<open>datetime\<close> is represented by its ISO-8601 text.\<close>

datatype datetime = Datetime string

fun isoformat :: "datetime \<Rightarrow> string" where
  "isoformat (Datetime s) = s"

datatype VideoStatus = UPLOADING | PROCESSING | READY | ERROR

record VideoInfo =
  vi_id :: string
  vi_filename :: string
  vi_original_filename :: string
  vi_file_size :: int
  vi_duration :: "real option"
  vi_fps :: "real option"
  vi_resolution :: "string option"
  vi_status :: VideoStatus
  vi_uploaded_at :: datetime
  vi_processed_at :: "datetime option"
  vi_frame_count :: "int option"
  vi_transcript :: "string option"
  vi_metadata :: "(string \<times> string) list"

record VideoFrame =
  vf_id :: string
  vf_video_id :: string
  vf_timestamp :: real
  vf_frame_number :: int
  vf_image_path :: string
  vf_description :: "string option"
  vf_objects :: "string list"
  vf_actions :: "string list"
  vf_scene_description :: "string option"

record ChatMessage =
  cm_id :: string
  cm_video_id :: string
  cm_role :: string
  cm_content :: string
  cm_timestamp :: datetime
  cm_context_frames :: "string list"

record ChatRequest =
  req_video_id :: string
  req_message :: string
  req_use_vision :: bool
  req_max_context_frames :: int

record ChatResponse =
  cr_message_id :: string
  cr_response :: string
  cr_context_frames :: "VideoFrame list"
  cr_confidence :: real
  cr_processing_time :: real

text \<open>Python truthiness of an \<open>Optional[str]\<close>: \<open>None\<close> and the empty string are false.\<close>

fun truthy :: "string option \<Rightarrow> bool" where
  "truthy None = False"
| "truthy (Some s) = (s \<noteq> [])"

section \<open>Vector index\<close>

text \<open>
  The collections of the vector store belong to the \<open>chromadb\<close> client library, which is
  not part of the repository.  A namespace maps record ids to (vector, document,
  metadata) with unique ids; it is kept as a list in insertion order.

  \<open>coll_add\<close> is the library's \<open>Collection.add\<close>, the only writing call the services make
  (they never call \<open>upsert\<close>): a record whose id is not in the collection is appended, a
  record whose id is already there is ignored and the stored record stays.

  Modelled from the spec: \<open>coll_query\<close> is \<open>query(namespace, queryVector, k, filter)\<close>,
  the records whose metadata match the filter exactly, ascending by cosine distance, ties
  in insertion order, at most \<open>k\<close> of them (none for \<open>k \<le> 0\<close>).
\<close>

datatype mval = MStr string | MInt int | MFloat real | MJson "string list"

type_synonym metadata = "(string \<times> mval) list"

type_synonym vec = "real list"

record index_record =
  rec_id :: string
  rec_embedding :: vec
  rec_document :: string
  rec_metadata :: metadata

type_synonym collection = "index_record list"

record hit =
  hit_id :: string
  hit_document :: string
  hit_metadata :: metadata
  hit_distance :: real

fun coll_add :: "index_record \<Rightarrow> collection \<Rightarrow> collection" where
  "coll_add r [] = [r]"
| "coll_add r (x # xs) = (if rec_id x = rec_id r then x # xs else x # coll_add r xs)"

definition dot :: "vec \<Rightarrow> vec \<Rightarrow> real" where
  "dot a b = sum_list (map2 (*) a b)"

definition cosine_distance :: "vec \<Rightarrow> vec \<Rightarrow> real" where
  "cosine_distance a b = 1 - dot a b / (sqrt (dot a a) * sqrt (dot b b))"

definition matches :: "metadata \<Rightarrow> metadata \<Rightarrow> bool" where
  "matches wh md = list_all (\<lambda>(k, v). map_of md k = Some v) wh"

definition to_hit :: "vec \<Rightarrow> index_record \<Rightarrow> hit" where
  "to_hit q r = \<lparr>hit_id = rec_id r, hit_document = rec_document r,
                 hit_metadata = rec_metadata r,
                 hit_distance = cosine_distance q (rec_embedding r)\<rparr>"

definition coll_query :: "collection \<Rightarrow> vec \<Rightarrow> int \<Rightarrow> metadata \<Rightarrow> hit list" where
  "coll_query c q k wh =
     take (nat k) (sort_key hit_distance
       (map (to_hit q) (filter (\<lambda>r. matches wh (rec_metadata r)) c)))"

fun md_get :: "metadata \<Rightarrow> string \<Rightarrow> error + mval" where
  "md_get md k = (case map_of md k of None \<Rightarrow> Inl (KeyError k) | Some v \<Rightarrow> Inr v)"

section \<open>\<open>RAGService\<close> (\<open>rag_service.py\<close>)\<close>

text \<open>
  The service holds three collections.  The embedding model is a collaborator:
  \<open>enc text\<close> is \<open>embedding_model.encode(text).tolist()\<close>, an exception or a vector.
  \<open>fmt2f x\<close> is the text of the float format \<open>{x:.2f}\<close>.  A method that mutates a
  collection returns the service's new state together with \<open>Inl\<close> the exception that
  left it, or \<open>Inr ()\<close>.
\<close>

record rag_index =
  frames_collection :: collection
  transcripts_collection :: collection
  chat_collection :: collection

definition create_frame_description :: "(real \<Rightarrow> string) \<Rightarrow> VideoFrame \<Rightarrow> string" where
  "create_frame_description fmt2f frame =
     (let parts1 = (if truthy (vf_scene_description frame)
                    then [''Scene: '' @ the (vf_scene_description frame)] else []);
          parts2 = parts1 @ (if vf_objects frame \<noteq> []
                    then [''Objects: '' @ py_join '', '' (vf_objects frame)] else []);
          parts3 = parts2 @ (if vf_actions frame \<noteq> []
                    then [''Actions: '' @ py_join '', '' (vf_actions frame)] else []);
          parts4 = parts3 @ [''Timestamp: '' @ fmt2f (vf_timestamp frame) @ '' seconds'']
      in py_join '' | '' parts4)"

definition frame_record :: "VideoFrame \<Rightarrow> string \<Rightarrow> vec \<Rightarrow> index_record" where
  "frame_record frame frame_text embedding =
     \<lparr>rec_id = vf_id frame, rec_embedding = embedding, rec_document = frame_text,
      rec_metadata =
        [(''video_id'', MStr (vf_video_id frame)),
         (''frame_id'', MStr (vf_id frame)),
         (''timestamp'', MFloat (vf_timestamp frame)),
         (''frame_number'', MInt (vf_frame_number frame)),
         (''image_path'', MStr (vf_image_path frame)),
         (''type'', MStr ''frame''),
         (''objects'', MJson (vf_objects frame)),
         (''actions'', MJson (vf_actions frame)),
         (''scene_description'',
            MStr (case vf_scene_description frame of None \<Rightarrow> [] | Some d \<Rightarrow> d))]\<rparr>"

fun add_frames ::
  "(string \<Rightarrow> error + vec) \<Rightarrow> (real \<Rightarrow> string) \<Rightarrow> VideoFrame list \<Rightarrow> rag_index
     \<Rightarrow> (error + unit) \<times> rag_index" where
  "add_frames enc fmt2f [] idx = (Inr (), idx)"
| "add_frames enc fmt2f (frame # frames) idx =
     (let frame_text = create_frame_description fmt2f frame in
      case enc frame_text of
        Inl e \<Rightarrow> (Inl e, idx)
      | Inr embedding \<Rightarrow>
          add_frames enc fmt2f frames
            (idx\<lparr>frames_collection :=
                   coll_add (frame_record frame frame_text embedding) (frames_collection idx)\<rparr>))"

definition chunk_record :: "VideoInfo \<Rightarrow> nat \<Rightarrow> string \<Rightarrow> vec \<Rightarrow> index_record" where
  "chunk_record video_info i chunk embedding =
     \<lparr>rec_id = vi_id video_info @ ''_transcript_'' @ str_nat i,
      rec_embedding = embedding, rec_document = chunk,
      rec_metadata =
        [(''video_id'', MStr (vi_id video_info)),
         (''chunk_index'', MInt (int i)),
         (''type'', MStr ''transcript''),
         (''timestamp'', MStr (isoformat (vi_uploaded_at video_info)))]\<rparr>"

fun add_chunks ::
  "(string \<Rightarrow> error + vec) \<Rightarrow> VideoInfo \<Rightarrow> nat \<Rightarrow> string list \<Rightarrow> rag_index
     \<Rightarrow> (error + unit) \<times> rag_index" where
  "add_chunks enc video_info i [] idx = (Inr (), idx)"
| "add_chunks enc video_info i (chunk # chunks) idx =
     (case enc chunk of
        Inl e \<Rightarrow> (Inl e, idx)
      | Inr embedding \<Rightarrow>
          add_chunks enc video_info (Suc i) chunks
            (idx\<lparr>transcripts_collection :=
                   coll_add (chunk_record video_info i chunk embedding)
                            (transcripts_collection idx)\<rparr>))"

definition add_transcript ::
  "(string \<Rightarrow> error + vec) \<Rightarrow> VideoInfo \<Rightarrow> rag_index \<Rightarrow> (error + unit) \<times> rag_index" where
  "add_transcript enc video_info idx =
     (if \<not> truthy (vi_transcript video_info) then (Inr (), idx)
      else case chunk_transcript (the (vi_transcript video_info)) 500 of
             Inl e \<Rightarrow> (Inl e, idx)
           | Inr transcript_chunks \<Rightarrow> add_chunks enc video_info 0 transcript_chunks idx)"

definition add_video_content ::
  "(string \<Rightarrow> error + vec) \<Rightarrow> (real \<Rightarrow> string) \<Rightarrow> VideoInfo \<Rightarrow> VideoFrame list \<Rightarrow> rag_index
     \<Rightarrow> (error + unit) \<times> rag_index" where
  "add_video_content enc fmt2f video_info frames idx =
     (case (if truthy (vi_transcript video_info) then add_transcript enc video_info idx
            else (Inr (), idx)) of
        (Inl e, idx1) \<Rightarrow> (Inl e, idx1)
      | (Inr u, idx1) \<Rightarrow> add_frames enc fmt2f frames idx1)"

record search_results =
  sr_frames :: "hit list"
  sr_transcript :: "hit list"

definition search_relevant_content ::
  "(string \<Rightarrow> error + vec) \<Rightarrow> rag_index \<Rightarrow> string \<Rightarrow> string \<Rightarrow> int \<Rightarrow> error + search_results" where
  "search_relevant_content enc idx query video_id max_results =
     (case enc query of
        Inl e \<Rightarrow> Inl e
      | Inr query_embedding \<Rightarrow>
          Inr \<lparr>sr_frames = coll_query (frames_collection idx) query_embedding max_results
                              [(''video_id'', MStr video_id)],
               sr_transcript = coll_query (transcripts_collection idx) query_embedding max_results
                              [(''video_id'', MStr video_id)]\<rparr>)"

record frame_context =
  fc_frame_id :: string
  fc_image_path :: mval
  fc_timestamp :: mval
  fc_description :: string
  fc_relevance_score :: real

record chat_context =
  ctx_frames :: "frame_context list"
  ctx_transcript :: string

text \<open>
  A search sends one query embedding, so each nested list of a query result has one
  row; the row is kept as the list of hits, and the tests on \<open>["ids"]\<close> and
  \<open>["documents"]\<close> being non-empty hold.  \<open>frame_entries\<close> is the loop over the frame
  hits of \<open>get_context_for_chat\<close>; reading a metadata key that a record lacks raises
  \<open>KeyError\<close>.
\<close>

fun frame_entries :: "hit list \<Rightarrow> frame_context list \<Rightarrow> error + frame_context list" where
  "frame_entries [] relevant_frames = Inr relevant_frames"
| "frame_entries (h # hs) relevant_frames =
     (case md_get (hit_metadata h) ''image_path'' of
        Inl e \<Rightarrow> Inl e
      | Inr image_path \<Rightarrow>
          (case md_get (hit_metadata h) ''timestamp'' of
             Inl e \<Rightarrow> Inl e
           | Inr timestamp \<Rightarrow>
               frame_entries hs
                 (relevant_frames @
                    [\<lparr>fc_frame_id = hit_id h, fc_image_path = image_path,
                      fc_timestamp = timestamp, fc_description = hit_document h,
                      fc_relevance_score = 1 - hit_distance h\<rparr>])))"

text \<open>
  \<open>list.sort(key, reverse=True)\<close> is a stable sort into descending key order: entries
  with equal keys keep their order.
\<close>

definition sort_by_relevance :: "frame_context list \<Rightarrow> frame_context list" where
  "sort_by_relevance xs = sort_key (\<lambda>x. - fc_relevance_score x) xs"

definition get_context_for_chat ::
  "(string \<Rightarrow> error + vec) \<Rightarrow> rag_index \<Rightarrow> string \<Rightarrow> string \<Rightarrow> int \<Rightarrow> error + chat_context" where
  "get_context_for_chat enc idx query video_id max_frames =
     (case search_relevant_content enc idx query video_id (max_frames * 2) of
        Inl e \<Rightarrow> Inl e
      | Inr search_results \<Rightarrow>
          (case frame_entries (sr_frames search_results) [] of
             Inl e \<Rightarrow> Inl e
           | Inr relevant_frames \<Rightarrow>
               Inr \<lparr>ctx_frames = py_slice (sort_by_relevance relevant_frames) 0 max_frames,
                    ctx_transcript =
                      py_join '' '' (map hit_document (sr_transcript search_results))\<rparr>))"

definition message_record :: "ChatMessage \<Rightarrow> vec \<Rightarrow> index_record" where
  "message_record message embedding =
     \<lparr>rec_id = cm_id message, rec_embedding = embedding, rec_document = cm_content message,
      rec_metadata =
        [(''video_id'', MStr (cm_video_id message)),
         (''message_id'', MStr (cm_id message)),
         (''role'', MStr (cm_role message)),
         (''timestamp'', MStr (isoformat (cm_timestamp message))),
         (''context_frames'', MJson (cm_context_frames message))]\<rparr>"

definition add_chat_message ::
  "(string \<Rightarrow> error + vec) \<Rightarrow> ChatMessage \<Rightarrow> rag_index \<Rightarrow> (error + unit) \<times> rag_index" where
  "add_chat_message enc message idx =
     (case enc (cm_content message) of
        Inl e \<Rightarrow> (Inl e, idx)
      | Inr embedding \<Rightarrow>
          (Inr (), idx\<lparr>chat_collection :=
                         coll_add (message_record message embedding) (chat_collection idx)\<rparr>))"

section \<open>\<open>LLMService\<close> (\<open>llm_service.py\<close>)\<close>

text \<open>
  \<open>openai_client\<close> and \<open>anthropic_client\<close> say whether the client was configured.  The
  four calls are the collaborators: each builds the provider's request from the message
  and the context (the vision variants read the frame images from disk) and sends it; it
  raises or gives the text of the answer.  A response is the dictionary with the keys
  \<open>content\<close>, \<open>confidence\<close> and \<open>processing_time\<close>; the private methods give the first
  two.
\<close>

record llm_service =
  openai_client :: bool
  anthropic_client :: bool
  openai_vision_call :: "string \<Rightarrow> chat_context \<Rightarrow> error + string"
  anthropic_vision_call :: "string \<Rightarrow> chat_context \<Rightarrow> error + string"
  openai_text_call :: "string \<Rightarrow> chat_context \<Rightarrow> error + string"
  anthropic_text_call :: "string \<Rightarrow> chat_context \<Rightarrow> error + string"

record llm_response =
  resp_content :: string
  resp_confidence :: real
  resp_processing_time :: real

definition generate_openai_vision_response ::
  "llm_service \<Rightarrow> string \<Rightarrow> chat_context \<Rightarrow> error + string \<times> real" where
  "generate_openai_vision_response llm message context =
     (if \<not> openai_client llm then Inl (Exception ''OpenAI client not configured'')
      else case openai_vision_call llm message context of
             Inl e \<Rightarrow> Inl e
           | Inr content \<Rightarrow> Inr (content, 0.9))"

definition generate_anthropic_vision_response ::
  "llm_service \<Rightarrow> string \<Rightarrow> chat_context \<Rightarrow> error + string \<times> real" where
  "generate_anthropic_vision_response llm message context =
     (if \<not> anthropic_client llm then Inl (Exception ''Anthropic client not configured'')
      else case anthropic_vision_call llm message context of
             Inl e \<Rightarrow> Inl e
           | Inr content \<Rightarrow> Inr (content, 0.9))"

definition generate_openai_text_response ::
  "llm_service \<Rightarrow> string \<Rightarrow> chat_context \<Rightarrow> error + string \<times> real" where
  "generate_openai_text_response llm message context =
     (case openai_text_call llm message context of
        Inl e \<Rightarrow> Inl e
      | Inr content \<Rightarrow> Inr (content, 0.8))"

definition generate_anthropic_text_response ::
  "llm_service \<Rightarrow> string \<Rightarrow> chat_context \<Rightarrow> error + string \<times> real" where
  "generate_anthropic_text_response llm message context =
     (case anthropic_text_call llm message context of
        Inl e \<Rightarrow> Inl e
      | Inr content \<Rightarrow> Inr (content, 0.8))"

definition generate_text_only_response ::
  "llm_service \<Rightarrow> string \<Rightarrow> chat_context \<Rightarrow> error + string \<times> real" where
  "generate_text_only_response llm message context =
     (if openai_client llm then generate_openai_text_response llm message context
      else if anthropic_client llm then generate_anthropic_text_response llm message context
      else Inr (''I apologize, but no LLM service is configured. '' @
                ''Please set up OpenAI or Anthropic API keys in your .env file.'', 0.0))"

text \<open>The body of the \<open>try\<close> block of \<open>generate_response\<close>, up to the provider's answer.\<close>

definition generate_attempt ::
  "llm_service \<Rightarrow> string \<Rightarrow> chat_context \<Rightarrow> bool \<Rightarrow> error + string \<times> real" where
  "generate_attempt llm message context use_vision =
     (if use_vision \<and> ctx_frames context \<noteq> [] then
        (if openai_client llm \<and> str_contains LLM_MODEL ''gpt-4''
           then generate_openai_vision_response llm message context
         else if anthropic_client llm
           then generate_anthropic_vision_response llm message context
         else generate_text_only_response llm message context)
      else generate_text_only_response llm message context)"

text \<open>
  \<open>start_time\<close> and \<open>end_time\<close> are the two readings of \<open>time.time()\<close>.  The \<open>except\<close>
  clause turns every exception of the body into a response.
\<close>

definition generate_response ::
  "llm_service \<Rightarrow> string \<Rightarrow> chat_context \<Rightarrow> bool \<Rightarrow> real \<Rightarrow> real \<Rightarrow> llm_response" where
  "generate_response llm message context use_vision start_time end_time =
     (case generate_attempt llm message context use_vision of
        Inr (content, confidence) \<Rightarrow>
          \<lparr>resp_content = content, resp_confidence = confidence,
           resp_processing_time = end_time - start_time\<rparr>
      | Inl e \<Rightarrow>
          \<lparr>resp_content = ''I apologize, but I encountered an error: '' @ err_str e,
           resp_confidence = 0.0,
           resp_processing_time = end_time - start_time\<rparr>)"

section \<open>Routes (\<open>chat.py\<close>, \<open>videos.py\<close>)\<close>

text \<open>
  The process-local dictionaries and the vector store make up the application state.
  One chat turn draws two identifiers from \<open>uuid4\<close> and reads the clocks; these
  readings are inputs of the turn.
\<close>

record app_state =
  chat_messages_db :: "string \<rightharpoonup> ChatMessage list"
  videos_db :: "string \<rightharpoonup> VideoInfo"
  rag :: rag_index

record turn_inputs =
  ti_message_id :: string
  ti_assistant_id :: string
  ti_now_user :: datetime
  ti_now_assistant :: datetime
  ti_start_time :: real
  ti_end_time :: real

fun mval_float :: "mval \<Rightarrow> error + real" where
  "mval_float (MFloat x) = Inr x"
| "mval_float (MInt i) = Inr (real_of_int i)"
| "mval_float v = Inl (ValidationError ''timestamp'')"

fun mval_str :: "mval \<Rightarrow> error + string" where
  "mval_str (MStr s) = Inr s"
| "mval_str v = Inl (ValidationError ''image_path'')"

fun response_frames :: "string \<Rightarrow> frame_context list \<Rightarrow> VideoFrame list \<Rightarrow> error + VideoFrame list" where
  "response_frames video_id [] context_frames = Inr context_frames"
| "response_frames video_id (frame_data # rest) context_frames =
     (case mval_float (fc_timestamp frame_data) of
        Inl e \<Rightarrow> Inl e
      | Inr timestamp \<Rightarrow>
          (case mval_str (fc_image_path frame_data) of
             Inl e \<Rightarrow> Inl e
           | Inr image_path \<Rightarrow>
               response_frames video_id rest
                 (context_frames @
                    [\<lparr>vf_id = fc_frame_id frame_data, vf_video_id = video_id,
                      vf_timestamp = timestamp, vf_frame_number = 0,
                      vf_image_path = image_path,
                      vf_description = Some (fc_description frame_data),
                      vf_objects = [], vf_actions = [], vf_scene_description = None\<rparr>])))"

definition db_append :: "(string \<rightharpoonup> ChatMessage list) \<Rightarrow> string \<Rightarrow> ChatMessage \<Rightarrow> (string \<rightharpoonup> ChatMessage list)" where
  "db_append db video_id m = db(video_id \<mapsto> (case db video_id of None \<Rightarrow> [] | Some ms \<Rightarrow> ms) @ [m])"

definition chat_with_video ::
  "(string \<Rightarrow> error + vec) \<Rightarrow> llm_service \<Rightarrow> turn_inputs \<Rightarrow> ChatRequest \<Rightarrow> app_state
     \<Rightarrow> (error + ChatResponse) \<times> app_state" where
  "chat_with_video enc llm ti request st =
     (case get_context_for_chat enc (rag st) (req_message request) (req_video_id request)
             (req_max_context_frames request) of
        Inl e \<Rightarrow> (Inl e, st)
      | Inr context \<Rightarrow>
          (let response = generate_response llm (req_message request) context
                            (req_use_vision request) (ti_start_time ti) (ti_end_time ti);
               chat_message =
                 \<lparr>cm_id = ti_message_id ti, cm_video_id = req_video_id request,
                  cm_role = ''user'', cm_content = req_message request,
                  cm_timestamp = ti_now_user ti,
                  cm_context_frames = map fc_frame_id (ctx_frames context)\<rparr>;
               st1 = st\<lparr>chat_messages_db :=
                          db_append (chat_messages_db st) (req_video_id request) chat_message\<rparr>
           in case add_chat_message enc chat_message (rag st1) of
                (Inl e, rag1) \<Rightarrow> (Inl e, st1\<lparr>rag := rag1\<rparr>)
              | (Inr u, rag1) \<Rightarrow>
                  (let assistant_message =
                         \<lparr>cm_id = ti_assistant_id ti, cm_video_id = req_video_id request,
                          cm_role = ''assistant'', cm_content = resp_content response,
                          cm_timestamp = ti_now_assistant ti,
                          cm_context_frames = map fc_frame_id (ctx_frames context)\<rparr>;
                       st2 = st1\<lparr>rag := rag1,
                                 chat_messages_db :=
                                   db_append (chat_messages_db st1) (req_video_id request)
                                     assistant_message\<rparr>
                   in case response_frames (req_video_id request) (ctx_frames context) [] of
                        Inl e \<Rightarrow> (Inl e, st2)
                      | Inr context_frames \<Rightarrow>
                          (Inr \<lparr>cr_message_id = cm_id assistant_message,
                                cr_response = resp_content response,
                                cr_context_frames = context_frames,
                                cr_confidence = resp_confidence response,
                                cr_processing_time = resp_processing_time response\<rparr>,
                           st2))))"

text \<open>
  \<open>VideoProcessor.get_video_frames\<close> returns the empty list.  \<open>process_video\<close> drives the
  video decoder and the transcriber and has no access to the vector store; its outcome
  (a \<open>VideoInfo\<close>, or the exception that escaped it) is the argument \<open>processed\<close> of the
  background task.
\<close>

definition get_video_frames :: "string \<Rightarrow> VideoFrame list" where
  "get_video_frames video_id = []"

definition set_status :: "(string \<rightharpoonup> VideoInfo) \<Rightarrow> string \<Rightarrow> VideoStatus \<Rightarrow> (string \<rightharpoonup> VideoInfo)" where
  "set_status db video_id s =
     (case db video_id of None \<Rightarrow> db | Some v \<Rightarrow> db(video_id \<mapsto> v\<lparr>vi_status := s\<rparr>))"

definition mark_error :: "(string \<rightharpoonup> VideoInfo) \<Rightarrow> string \<Rightarrow> error \<Rightarrow> (string \<rightharpoonup> VideoInfo)" where
  "mark_error db video_id e =
     (case db video_id of
        None \<Rightarrow> db
      | Some v \<Rightarrow> db(video_id \<mapsto>
          v\<lparr>vi_status := ERROR,
            vi_metadata := AList.update ''error'' (err_str e) (vi_metadata v)\<rparr>))"

definition process_video_background ::
  "(string \<Rightarrow> error + vec) \<Rightarrow> (real \<Rightarrow> string) \<Rightarrow> (error + VideoInfo) \<Rightarrow> string \<Rightarrow> app_state
     \<Rightarrow> app_state" where
  "process_video_background enc fmt2f processed video_id st =
     (let db1 = set_status (videos_db st) video_id PROCESSING in
      case processed of
        Inl e \<Rightarrow> st\<lparr>videos_db := mark_error db1 video_id e\<rparr>
      | Inr video_info \<Rightarrow>
          (let db2 = db1(video_id \<mapsto> video_info);
               frames = get_video_frames video_id
           in case add_video_content enc fmt2f video_info frames (rag st) of
                (Inl e, rag1) \<Rightarrow> st\<lparr>videos_db := mark_error db2 video_id e, rag := rag1\<rparr>
              | (Inr u, rag1) \<Rightarrow> st\<lparr>videos_db := db2, rag := rag1\<rparr>))"

section \<open>\<open>VideoProcessor._extract_frames\<close> (\<open>video_processor.py\<close>)\<close>

text \<open>
  The capture is its frame rate \<open>fps\<close> and the images that \<open>cap.read()\<close> delivers before
  it reports the end; \<open>uuid n\<close> is the identifier drawn for the \<open>n\<close>-th extracted frame.
  Writing the image files is not part of the model.
\<close>

fun extract_loop ::
  "(nat \<Rightarrow> string) \<Rightarrow> real \<Rightarrow> int \<Rightarrow> string \<Rightarrow> 'img list \<Rightarrow> int \<Rightarrow> int \<Rightarrow> VideoFrame list
     \<Rightarrow> error + VideoFrame list" where
  "extract_loop uuid fps frame_interval video_id [] frame_count extracted_count frames =
     Inr frames"
| "extract_loop uuid fps frame_interval video_id (img # rest) frame_count extracted_count frames =
     (if frame_interval = 0 then Inl (ZeroDivisionError ''integer modulo by zero'')
      else if frame_count mod frame_interval = 0 \<and> extracted_count < MAX_FRAMES_PER_VIDEO then
        (if fps = 0 then Inl (ZeroDivisionError ''float division by zero'')
         else
           (let frame_filename = ''frame_'' @ fmt_04d extracted_count @ ''.jpg'';
                timestamp = real_of_int frame_count / fps;
                frame_obj =
                  \<lparr>vf_id = uuid (nat extracted_count), vf_video_id = video_id,
                   vf_timestamp = timestamp, vf_frame_number = extracted_count,
                   vf_image_path = ''/static/frames/'' @ video_id @ ''/'' @ frame_filename,
                   vf_description = None, vf_objects = [], vf_actions = [],
                   vf_scene_description = None\<rparr>
            in extract_loop uuid fps frame_interval video_id rest
                 (frame_count + 1) (extracted_count + 1) (frames @ [frame_obj])))
      else extract_loop uuid fps frame_interval video_id rest
             (frame_count + 1) extracted_count frames)"

definition extract_frames ::
  "(nat \<Rightarrow> string) \<Rightarrow> real \<Rightarrow> 'img list \<Rightarrow> string \<Rightarrow> error + VideoFrame list" where
  "extract_frames uuid fps images video_id =
     (let frame_interval = py_int (fps * real_of_int FRAME_EXTRACTION_RATE)
      in extract_loop uuid fps frame_interval video_id images 0 0 [])"

section \<open>A concrete scenario\<close>

text \<open>
  Stand-ins for the collaborators, used to run the definitions on concrete inputs: an
  embedding model with two-dimensional unit vectors that fails on one text, the float
  format on whole non-negative seconds, and two videos \<open>A\<close> and \<open>B\<close> with three
  indexed frames.
\<close>

definition demo_enc :: "string \<Rightarrow> error + vec" where
  "demo_enc text =
     (if str_contains text ''corrupt'' then Inl (ExternalError ''cannot encode'')
      else if str_contains text ''cat'' then Inr [1, 0]
      else if str_contains text ''dog'' then Inr [0, 1]
      else Inr [- 1, 0])"

definition fmt2f_whole :: "real \<Rightarrow> string" where
  "fmt2f_whole x = str_nat (nat \<lfloor>x\<rfloor>) @ ''.00''"

definition demo_frame :: "string \<Rightarrow> string \<Rightarrow> real \<Rightarrow> string \<Rightarrow> VideoFrame" where
  "demo_frame fid vid t scene =
     \<lparr>vf_id = fid, vf_video_id = vid, vf_timestamp = t, vf_frame_number = 0,
      vf_image_path = ''/static/frames/'' @ vid @ ''/frame_0000.jpg'',
      vf_description = None, vf_objects = [], vf_actions = [],
      vf_scene_description = Some scene\<rparr>"

definition empty_index :: rag_index where
  "empty_index = \<lparr>frames_collection = [], transcripts_collection = [], chat_collection = []\<rparr>"

definition demo_index :: rag_index where
  "demo_index =
     snd (add_frames demo_enc fmt2f_whole
            [demo_frame ''fA1'' ''A'' 1 ''a dog'',
             demo_frame ''fB1'' ''B'' 1 ''a cat'',
             demo_frame ''fA2'' ''A'' 2 ''a tree'']
            empty_index)"

definition demo_video :: "string \<Rightarrow> string \<Rightarrow> VideoInfo" where
  "demo_video vid transcript =
     \<lparr>vi_id = vid, vi_filename = vid @ ''_clip.mp4'', vi_original_filename = ''clip.mp4'',
      vi_file_size = 1024, vi_duration = Some 3, vi_fps = Some 2, vi_resolution = Some ''640x480'',
      vi_status = READY, vi_uploaded_at = Datetime ''2024-01-01T09:00:00'',
      vi_processed_at = Some (Datetime ''2024-01-01T09:00:05''), vi_frame_count = Some 3,
      vi_transcript = Some transcript, vi_metadata = []\<rparr>"

definition demo_llm :: llm_service where
  "demo_llm =
     \<lparr>openai_client = True, anthropic_client = False,
      openai_vision_call = (\<lambda>m c. Inl (ExternalError ''vision request timed out'')),
      anthropic_vision_call = (\<lambda>m c. Inl (ExternalError ''no client'')),
      openai_text_call = (\<lambda>m c. Inl (ExternalError ''text request timed out'')),
      anthropic_text_call = (\<lambda>m c. Inl (ExternalError ''no client''))\<rparr>"

definition demo_turn :: turn_inputs where
  "demo_turn =
     \<lparr>ti_message_id = ''msg-user'', ti_assistant_id = ''msg-assistant'',
      ti_now_user = Datetime ''2024-01-01T10:00:00'',
      ti_now_assistant = Datetime ''2024-01-01T10:00:02'',
      ti_start_time = 10, ti_end_time = 12\<rparr>"

definition demo_request :: ChatRequest where
  "demo_request =
     \<lparr>req_video_id = ''A'', req_message = ''where is the cat'', req_use_vision = True,
      req_max_context_frames = 5\<rparr>"

definition demo_state :: app_state where
  "demo_state = \<lparr>chat_messages_db = Map.empty, videos_db = Map.empty, rag = demo_index\<rparr>"

section \<open>Properties of the chunker\<close>

lemma py_join_append:
  "xs \<noteq> [] \<Longrightarrow> ys \<noteq> [] \<Longrightarrow> py_join sep (xs @ ys) = py_join sep xs @ sep @ py_join sep ys"
  by (induction sep xs rule: py_join.induct) (auto simp: neq_Nil_conv)

lemma py_join_concat:
  "\<forall>xs \<in> set xss. xs \<noteq> [] \<Longrightarrow> py_join sep (map (py_join sep) xss) = py_join sep (concat xss)"
proof (induction xss)
  case Nil
  then show ?case by simp
next
  case (Cons xs xss)
  show ?case
  proof (cases xss)
    case Nil
    then show ?thesis by simp
  next
    case (Cons ys yss)
    with Cons.prems have ne: "xs \<noteq> []" "concat xss \<noteq> []" by auto
    have "py_join sep (map (py_join sep) (xs # xss)) = py_join sep xs @ sep @ py_join sep (map (py_join sep) xss)"
      using Cons by simp
    also have "\<dots> = py_join sep xs @ sep @ py_join sep (concat xss)"
      using Cons.IH Cons.prems by simp
    also have "\<dots> = py_join sep (concat (xs # xss))"
      using ne by (simp add: py_join_append)
    finally show ?thesis .
  qed
qed

lemma py_range_pos_length:
  "0 < step \<Longrightarrow> int (length (py_range i stop step)) = max 0 (- ((i - stop) div step))"
proof (induction i stop step rule: py_range.induct)
  case (1 i stop step)
  show ?case
  proof (cases "i < stop")
    case True
    have "i + step - stop = (i - stop) + step" by simp
    then have "(i + step - stop) div step = (i - stop) div step + 1"
      using 1(3) by (simp only: div_add_self2)
    moreover have "(i - stop) div step < 0"
      using True 1(3) by (intro div_neg_pos_less0) simp_all
    ultimately show ?thesis
      using 1 True by (subst py_range.simps) simp
  next
    case False
    then have "0 \<le> (i - stop) div step" using 1(3) by (simp add: pos_imp_zdiv_nonneg_iff)
    with False 1(3) show ?thesis by (subst py_range.simps) simp
  qed
qed

lemma py_range_pos_nth:
  "0 < step \<Longrightarrow> k < length (py_range i stop step) \<Longrightarrow> py_range i stop step ! k = i + int k * step"
proof (induction i stop step arbitrary: k rule: py_range.induct)
  case (1 i stop step)
  from 1(4) have lt: "i < stop" using 1(3) by (subst (asm) py_range.simps) (auto split: if_splits)
  then have eq: "py_range i stop step = i # py_range (i + step) stop step"
    using 1(3) by (subst py_range.simps) simp
  show ?case
  proof (cases k)
    case 0
    then show ?thesis using eq by simp
  next
    case (Suc k')
    then have "k' < length (py_range (i + step) stop step)" using 1(4) eq by simp
    from 1(1)[OF _ 1(3) this] lt 1(3) have "py_range (i + step) stop step ! k' = i + step + int k' * step" by simp
    then show ?thesis using eq Suc by (simp add: algebra_simps)
  qed
qed

lemma py_range_pos_bound:
  "0 < step \<Longrightarrow> x \<in> set (py_range i stop step) \<Longrightarrow> i \<le> x \<and> x < stop"
proof (induction i stop step rule: py_range.induct)
  case (1 i stop step)
  from 1(4) have lt: "i < stop" using 1(3) by (subst (asm) py_range.simps) (auto split: if_splits)
  then have eq: "py_range i stop step = i # py_range (i + step) stop step"
    using 1(3) by (subst py_range.simps) simp
  with 1 lt show ?case by auto
qed

lemma py_slice_window:
  "0 \<le> i \<Longrightarrow> 0 < w \<Longrightarrow> py_slice xs i (i + w) = take (nat w) (drop (nat i) xs)"
  by (auto simp: py_slice_def slice_bound_def Let_def min_def nat_add_distrib nat_diff_distrib)


lemma py_range_windows_concat:
  "0 < w \<Longrightarrow> 0 \<le> i \<Longrightarrow>
   concat (map (\<lambda>j. take (nat w) (drop (nat j) ws)) (py_range i (int (length ws)) w)) = drop (nat i) ws"
proof (induction i "int (length ws)" w rule: py_range.induct)
  case (1 i step)
  show ?case
  proof (cases "i < int (length ws)")
    case True
    then have eq: "py_range i (int (length ws)) step = i # py_range (i + step) (int (length ws)) step"
      using 1(3) by (subst py_range.simps) simp
    have "concat (map (\<lambda>j. take (nat step) (drop (nat j) ws)) (py_range (i + step) (int (length ws)) step))
          = drop (nat (i + step)) ws"
      using 1(1)[OF _ 1(3)] True 1(3) 1(4) by simp
    moreover have "drop (nat (i + step)) ws = drop (nat step) (drop (nat i) ws)"
      using 1(3) 1(4) by (simp add: nat_add_distrib add.commute)
    ultimately have "concat (map (\<lambda>j. take (nat step) (drop (nat j) ws)) (py_range (i + step) (int (length ws)) step))
          = drop (nat step) (drop (nat i) ws)" by simp
    then show ?thesis unfolding eq by (simp only: list.map concat.simps append_take_drop_id)
  next
    case False
    then have "py_range i (int (length ws)) step = []"
      using 1(3) by (subst py_range.simps) simp
    with False show ?thesis by simp
  qed
qed

text \<open>
  Claim C5.  For a window size \<open>W > 0\<close>, \<open>_chunk_transcript(T, W)\<close> returns a list of
  chunks and raises nothing; the number of chunks is the ceiling of the word count over
  \<open>W\<close>; chunk \<open>i\<close> is the words \<open>[i*W, (i+1)*W)\<close> of \<open>T.split()\<close> joined by single
  spaces; the chunks joined by single spaces are the words of \<open>T\<close> joined by single
  spaces; and the empty transcript gives the empty list.
\<close>

theorem chunk_transcript_windows:
  assumes "0 < W"
  shows "\<exists>chunks. chunk_transcript T W = Inr chunks
           \<and> int (length chunks) = \<lceil>real (length (py_split T)) / real_of_int W\<rceil>
           \<and> (\<forall>i < length chunks.
                 chunks ! i = py_join '' '' (take (nat W) (drop (i * nat W) (py_split T))))
           \<and> py_join '' '' chunks = py_join '' '' (py_split T)
           \<and> chunk_transcript [] W = Inr []"
proof -
  define ws where "ws = py_split T"
  define starts where "starts = py_range 0 (int (length ws)) W"
  define chunks where "chunks = map (\<lambda>i. py_join '' '' (py_slice ws i (i + W))) starts"
  have inr: "chunk_transcript T W = Inr chunks"
    using assms by (simp add: chunk_transcript_def chunks_def starts_def ws_def Let_def)
  have bound: "0 \<le> j \<and> j < int (length ws)" if "j \<in> set starts" for j
    using that assms py_range_pos_bound[of W j 0 "int (length ws)"] by (simp add: starts_def)
  have chunks_eq: "chunks = map (\<lambda>i. py_join '' '' (take (nat W) (drop (nat i) ws))) starts"
    unfolding chunks_def using bound assms by (simp add: py_slice_window)
  have len: "int (length chunks) = \<lceil>real (length ws) / real_of_int W\<rceil>"
  proof -
    have "int (length chunks) = max 0 (- ((0 - int (length ws)) div W))"
      using py_range_pos_length[OF assms, of 0 "int (length ws)"] by (simp add: chunks_def starts_def)
    also have "\<dots> = - ((- int (length ws)) div W)"
    proof -
      have "(- int (length ws)) div W \<le> 0"
        using assms by (simp add: div_nonpos_pos_le0)
      then show ?thesis by simp
    qed
    also have "\<dots> = \<lceil>real_of_int (int (length ws)) / real_of_int W\<rceil>"
      by (simp only: ceiling_divide_eq_div)
    finally show ?thesis by simp
  qed
  have nth: "chunks ! i = py_join '' '' (take (nat W) (drop (i * nat W) ws))" if "i < length chunks" for i
  proof -
    from that have i: "i < length starts" by (simp add: chunks_def)
    then have "starts ! i = int i * W"
      using py_range_pos_nth[OF assms, of i 0 "int (length ws)"] by (simp add: starts_def)
    moreover have "nat (int i * W) = i * nat W"
      using assms by (simp add: nat_mult_distrib)
    ultimately show ?thesis using i by (simp add: chunks_eq)
  qed
  have joined: "py_join '' '' chunks = py_join '' '' ws"
  proof -
    let ?xss = "map (\<lambda>j. take (nat W) (drop (nat j) ws)) starts"
    have ne: "\<forall>xs \<in> set ?xss. xs \<noteq> []"
    proof
      fix xs assume "xs \<in> set ?xss"
      then obtain j where j: "j \<in> set starts" and xs: "xs = take (nat W) (drop (nat j) ws)" by auto
      from bound[OF j] have "nat j < length ws" by linarith
      then show "xs \<noteq> []" using assms xs by simp
    qed
    have "chunks = map (py_join '' '') ?xss" by (simp add: chunks_eq)
    then have "py_join '' '' chunks = py_join '' '' (concat ?xss)"
      using py_join_concat[OF ne] by simp
    also have "concat ?xss = ws"
      using py_range_windows_concat[OF assms, of 0 ws] by (simp add: starts_def)
    finally show ?thesis .
  qed
  have empty: "chunk_transcript [] W = Inr []"
    using assms by (simp add: chunk_transcript_def py_split_def py_range.simps)
  show ?thesis
    using inr len nth joined empty unfolding ws_def by blast
qed

theorem chunk_transcript_windows_witness:
  "(0::int) < 3
   \<and> chunk_transcript ''the cat  sat on the mat'' 3 = Inr [''the cat sat'', ''on the mat'']
   \<and> py_join '' '' [''the cat sat'', ''on the mat''] = ''the cat sat on the mat''
   \<and> chunk_transcript [] 3 = Inr []"
proof -
  have ev: "chunk_transcript ''the cat  sat on the mat'' 3 = Inr [''the cat sat'', ''on the mat'']"
    by code_simp
  have sp: "py_split ''the cat  sat on the mat'' = [''the'', ''cat'', ''sat'', ''on'', ''the'', ''mat'']"
    by code_simp
  show ?thesis
    using chunk_transcript_windows[of 3 "''the cat  sat on the mat''"] ev sp by simp
qed


section \<open>Properties of frame extraction\<close>

lemma py_int_ge_one: "1 \<le> py_int x \<Longrightarrow> 1 \<le> x"
  by (auto simp: py_int_def split: if_splits)

lemma extract_loop_inv:
  assumes "1 \<le> iv" and "0 < fps" and "0 \<le> fc"
    and "ec = int (length frames)"
    and "ec \<le> MAX_FRAMES_PER_VIDEO"
    and "\<forall>i < length frames. vf_frame_number (frames ! i) = int i"
    and "sorted_wrt (<) (map vf_timestamp frames)"
    and "\<forall>f \<in> set frames. vf_timestamp f < real_of_int fc / fps"
  shows "\<exists>out. extract_loop uuid fps iv vid imgs fc ec frames = Inr out
           \<and> int (length out) \<le> MAX_FRAMES_PER_VIDEO
           \<and> (\<forall>i < length out. vf_frame_number (out ! i) = int i)
           \<and> sorted_wrt (<) (map vf_timestamp out)"
  using assms
proof (induction imgs arbitrary: fc ec frames)
  case Nil
  then show ?case by simp
next
  case (Cons img rest)
  have iv0: "iv \<noteq> 0" and fps0: "fps \<noteq> 0" using Cons.prems by auto
  have later: "\<forall>f \<in> set frames. vf_timestamp f < real_of_int (fc + 1) / fps"
  proof
    fix f assume "f \<in> set frames"
    then have "vf_timestamp f < real_of_int fc / fps" using Cons.prems by blast
    also have "\<dots> \<le> real_of_int (fc + 1) / fps"
      using Cons.prems(2) by (simp add: divide_right_mono)
    finally show "vf_timestamp f < real_of_int (fc + 1) / fps" .
  qed
  show ?case
  proof (cases "fc mod iv = 0 \<and> ec < MAX_FRAMES_PER_VIDEO")
    case False
    have "\<exists>out. extract_loop uuid fps iv vid rest (fc + 1) ec frames = Inr out
           \<and> int (length out) \<le> MAX_FRAMES_PER_VIDEO
           \<and> (\<forall>i < length out. vf_frame_number (out ! i) = int i)
           \<and> sorted_wrt (<) (map vf_timestamp out)"
      using Cons.prems later by (intro Cons.IH) auto
    then show ?thesis using False iv0 by auto
  next
    case True
    define fr where "fr = \<lparr>vf_id = uuid (nat ec), vf_video_id = vid,
                   vf_timestamp = real_of_int fc / fps, vf_frame_number = ec,
                   vf_image_path = ''/static/frames/'' @ vid @ ''/'' @ (''frame_'' @ fmt_04d ec @ ''.jpg''),
                   vf_description = None, vf_objects = [], vf_actions = [],
                   vf_scene_description = None\<rparr>"
    have step: "extract_loop uuid fps iv vid (img # rest) fc ec frames
                = extract_loop uuid fps iv vid rest (fc + 1) (ec + 1) (frames @ [fr])"
      using True iv0 fps0 by (simp add: fr_def Let_def)
    have nums: "\<forall>i < length (frames @ [fr]). vf_frame_number ((frames @ [fr]) ! i) = int i"
      using Cons.prems(4,6) by (auto simp: nth_append fr_def)
    have srt: "sorted_wrt (<) (map vf_timestamp (frames @ [fr]))"
      using Cons.prems(7,8) by (auto simp: sorted_wrt_append fr_def)
    have lt: "real_of_int fc / fps < real_of_int (fc + 1) / fps"
      using Cons.prems(2) by (simp add: divide_strict_right_mono)
    have bnd: "\<forall>f \<in> set (frames @ [fr]). vf_timestamp f < real_of_int (fc + 1) / fps"
      using later lt by (auto simp: fr_def)
    have "\<exists>out. extract_loop uuid fps iv vid rest (fc + 1) (ec + 1) (frames @ [fr]) = Inr out
           \<and> int (length out) \<le> MAX_FRAMES_PER_VIDEO
           \<and> (\<forall>i < length out. vf_frame_number (out ! i) = int i)
           \<and> sorted_wrt (<) (map vf_timestamp out)"
    proof (intro Cons.IH)
      show "1 \<le> iv" "0 < fps" using Cons.prems by auto
      show "0 \<le> fc + 1" using Cons.prems by simp
      show "ec + 1 = int (length (frames @ [fr]))" using Cons.prems by simp
      show "ec + 1 \<le> MAX_FRAMES_PER_VIDEO" using True by simp
      show "\<forall>i < length (frames @ [fr]). vf_frame_number ((frames @ [fr]) ! i) = int i" by (rule nums)
      show "sorted_wrt (<) (map vf_timestamp (frames @ [fr]))" by (rule srt)
      show "\<forall>f \<in> set (frames @ [fr]). vf_timestamp f < real_of_int (fc + 1) / fps" by (rule bnd)
    qed
    then show ?thesis unfolding step .
  qed
qed

text \<open>
  Claim C10.  When \<open>int(fps * FRAME_EXTRACTION_RATE)\<close> is at least 1, \<open>_extract_frames\<close>
  returns a list (it raises nothing), the list has at most \<open>MAX_FRAMES_PER_VIDEO = 300\<close>
  frames, the \<open>i\<close>-th frame has \<open>frame_number = i\<close>, and the timestamps are strictly
  increasing.
\<close>

theorem extract_frames_bounded_numbered:
  assumes "1 \<le> py_int (fps * real_of_int FRAME_EXTRACTION_RATE)"
  shows "\<exists>frames. extract_frames uuid fps images video_id = Inr frames
           \<and> int (length frames) \<le> MAX_FRAMES_PER_VIDEO
           \<and> MAX_FRAMES_PER_VIDEO = 300
           \<and> (\<forall>i < length frames. vf_frame_number (frames ! i) = int i)
           \<and> sorted_wrt (<) (map vf_timestamp frames)"
proof -
  have "1 \<le> fps * real_of_int FRAME_EXTRACTION_RATE"
    using assms by (rule py_int_ge_one)
  then have fps: "0 < fps" by (simp add: FRAME_EXTRACTION_RATE_def)
  have "\<exists>out. extract_loop uuid fps (py_int (fps * real_of_int FRAME_EXTRACTION_RATE))
                 video_id images 0 0 [] = Inr out
           \<and> int (length out) \<le> MAX_FRAMES_PER_VIDEO
           \<and> (\<forall>i < length out. vf_frame_number (out ! i) = int i)
           \<and> sorted_wrt (<) (map vf_timestamp out)"
    using assms fps by (intro extract_loop_inv) (simp_all add: MAX_FRAMES_PER_VIDEO_def)
  then show ?thesis
    by (simp add: extract_frames_def Let_def MAX_FRAMES_PER_VIDEO_def)
qed

lemma extract_frames_demo:
  "map (\<lambda>f. (vf_frame_number f, vf_timestamp f))
       (projr (extract_frames (\<lambda>n. ''frame-id-'' @ str_nat n) 2 [(), (), (), (), ()] ''v1''))
     = [(0, 0), (1, 1), (2, 2)]"
  by (simp add: extract_frames_def py_int_def FRAME_EXTRACTION_RATE_def MAX_FRAMES_PER_VIDEO_def Let_def)

theorem extract_frames_bounded_numbered_witness:
  "1 \<le> py_int (2 * real_of_int FRAME_EXTRACTION_RATE)
   \<and> map (\<lambda>f. (vf_frame_number f, vf_timestamp f))
       (projr (extract_frames (\<lambda>n. ''frame-id-'' @ str_nat n) 2 [(), (), (), (), ()] ''v1''))
     = [(0, 0), (1, 1), (2, 2)]
   \<and> (\<exists>frames. extract_frames (\<lambda>n. ''frame-id-'' @ str_nat n) 2 [(), (), (), (), ()] ''v1'' = Inr frames
           \<and> int (length frames) \<le> 300 \<and> sorted_wrt (<) (map vf_timestamp frames))"
proof -
  have h: "1 \<le> py_int (2 * real_of_int FRAME_EXTRACTION_RATE)"
    by (simp add: py_int_def FRAME_EXTRACTION_RATE_def)
  from extract_frames_bounded_numbered[OF h, of "\<lambda>n. ''frame-id-'' @ str_nat n" "[(), (), (), (), ()]" "''v1''"]
  have "\<exists>frames. extract_frames (\<lambda>n. ''frame-id-'' @ str_nat n) 2 [(), (), (), (), ()] ''v1'' = Inr frames
           \<and> int (length frames) \<le> 300 \<and> sorted_wrt (<) (map vf_timestamp frames)"
    by auto
  with h extract_frames_demo show ?thesis by blast
qed

section \<open>Evaluating the scenario\<close>

lemma fmt1: "fmt2f_whole 1 = ''1.00''"
  by (simp add: fmt2f_whole_def str_nat.simps digit_char_def)
lemma fmt2: "fmt2f_whole 2 = ''2.00''"
  by (simp add: fmt2f_whole_def str_nat.simps digit_char_def)

lemma demo_index_frames:
  "frames_collection demo_index =
     [frame_record (demo_frame ''fA1'' ''A'' 1 ''a dog'') ''Scene: a dog | Timestamp: 1.00 seconds'' [0, 1],
      frame_record (demo_frame ''fB1'' ''B'' 1 ''a cat'') ''Scene: a cat | Timestamp: 1.00 seconds'' [1, 0],
      frame_record (demo_frame ''fA2'' ''A'' 2 ''a tree'') ''Scene: a tree | Timestamp: 2.00 seconds'' [- 1, 0]]"
  by (simp add: demo_index_def empty_index_def create_frame_description_def demo_frame_def fmt1 fmt2
      demo_enc_def frame_record_def Let_def)

lemma demo_index_other:
  "transcripts_collection demo_index = [] \<and> chat_collection demo_index = []"
  by (simp add: demo_index_def empty_index_def create_frame_description_def demo_frame_def fmt1 fmt2
      demo_enc_def  Let_def)

lemma demo_dists:
  "cosine_distance [1, 0] [0, 1] = 1" "cosine_distance [1, 0] [1, 0] = 0" "cosine_distance [1, 0] [- 1, 0] = 2"
  by (simp_all add: cosine_distance_def dot_def)

lemma demo_search:
  "search_relevant_content demo_enc demo_index ''where is the cat'' ''A'' 10 =
     Inr \<lparr>sr_frames = [to_hit [1, 0] (frame_record (demo_frame ''fA1'' ''A'' 1 ''a dog'') ''Scene: a dog | Timestamp: 1.00 seconds'' [0, 1]),
                        to_hit [1, 0] (frame_record (demo_frame ''fA2'' ''A'' 2 ''a tree'') ''Scene: a tree | Timestamp: 2.00 seconds'' [- 1, 0])],
          sr_transcript = []\<rparr>"
  by (simp add: search_relevant_content_def demo_enc_def demo_index_frames demo_index_other coll_query_def
       matches_def frame_record_def demo_frame_def to_hit_def demo_dists)

lemma demo_context:
  "map (\<lambda>f. (fc_frame_id f, fc_relevance_score f)) (ctx_frames (projr (get_context_for_chat demo_enc demo_index ''where is the cat'' ''A'' 5)))
    = [(''fA1'', 0), (''fA2'', - 1)]"
  by (simp add: get_context_for_chat_def search_relevant_content_def demo_enc_def demo_index_frames demo_index_other coll_query_def
       matches_def frame_record_def demo_frame_def to_hit_def demo_dists sort_by_relevance_def py_slice_def slice_bound_def)

lemma fmt3: "fmt2f_whole 3 = ''3.00''"
  by (simp add: fmt2f_whole_def str_nat.simps digit_char_def)

section \<open>Properties of retrieval\<close>

lemma coll_query_hits:
  "h \<in> set (coll_query c q k wh) \<Longrightarrow> \<exists>r \<in> set c. matches wh (rec_metadata r) \<and> h = to_hit q r"
  unfolding coll_query_def by (auto dest!: in_set_takeD)

lemma coll_query_length: "length (coll_query c q k wh) \<le> nat k"
  by (simp add: coll_query_def)

lemma coll_query_sorted: "sorted (map hit_distance (coll_query c q k wh))"
  unfolding coll_query_def by (simp add: take_map[symmetric] sorted_wrt_take)

lemma matches_video_id:
  "matches [(''video_id'', MStr v)] md \<longleftrightarrow> map_of md ''video_id'' = Some (MStr v)"
  by (simp add: matches_def)

lemma frame_entries_acc:
  "frame_entries hs acc = Inr out \<Longrightarrow>
     map fc_relevance_score out = map fc_relevance_score acc @ map (\<lambda>h. 1 - hit_distance h) hs
     \<and> map fc_frame_id out = map fc_frame_id acc @ map hit_id hs"
proof (induction hs arbitrary: acc)
  case Nil
  then show ?case by simp
next
  case (Cons h hs)
  from Cons.prems obtain p t where
    "frame_entries hs (acc @ [\<lparr>fc_frame_id = hit_id h, fc_image_path = p,
                      fc_timestamp = t, fc_description = hit_document h,
                      fc_relevance_score = 1 - hit_distance h\<rparr>]) = Inr out"
    by (auto split: sum.splits option.splits)
  from Cons.IH[OF this] show ?case by simp
qed

lemma frame_entries_zip:
  assumes "frame_entries hs [] = Inr out"
  shows "map (\<lambda>f. (fc_frame_id f, fc_relevance_score f)) out = map (\<lambda>h. (hit_id h, 1 - hit_distance h)) hs"
proof -
  from frame_entries_acc[OF assms] have a: "map fc_relevance_score out = map (\<lambda>h. 1 - hit_distance h) hs"
    and b: "map fc_frame_id out = map hit_id hs" by simp_all
  have "map (\<lambda>f. (fc_frame_id f, fc_relevance_score f)) out = zip (map fc_frame_id out) (map fc_relevance_score out)"
    by (induction out) auto
  also have "\<dots> = zip (map hit_id hs) (map (\<lambda>h. 1 - hit_distance h) hs)" by (simp only: a b)
  also have "\<dots> = map (\<lambda>h. (hit_id h, 1 - hit_distance h)) hs" by (induction hs) auto
  finally show ?thesis .
qed

lemma py_slice_prefix: "py_slice xs 0 m = take (slice_bound (length xs) m) xs"
  by (simp add: py_slice_def slice_bound_def)

lemma py_slice_prefix_length:
  "length xs \<le> nat (m * 2) \<Longrightarrow> int (length (py_slice xs 0 m)) \<le> max 0 m"
  by (cases "m < 0") (auto simp: py_slice_prefix slice_bound_def)

lemma py_slice_prefix_set: "set (py_slice xs 0 m) \<subseteq> set xs"
  by (simp add: py_slice_prefix set_take_subset)

lemma sort_by_relevance_desc:
  "sorted_wrt (\<ge>) (map fc_relevance_score (sort_by_relevance xs))"
proof -
  have "sorted (map (\<lambda>x. - fc_relevance_score x) (sort_by_relevance xs))"
    by (simp add: sort_by_relevance_def)
  then show ?thesis by (simp add: sorted_wrt_map)
qed

lemma sort_by_relevance_set: "set (sort_by_relevance xs) = set xs"
  by (simp add: sort_by_relevance_def)

text \<open>
  Claim C1.  Whatever the query, the video id and \<open>k\<close>: every frame hit and every
  transcript hit that \<open>search_relevant_content\<close> returns is a record of the index whose
  metadata \<open>video_id\<close> is the requested one; for any other video \<open>B\<close>, no hit carries
  \<open>video_id = B\<close>, however close \<open>B\<close>'s records are to the query.
\<close>

theorem search_relevant_content_isolation:
  assumes "search_relevant_content enc idx query video_id max_results = Inr res"
  shows "(\<forall>h \<in> set (sr_frames res).
            map_of (hit_metadata h) ''video_id'' = Some (MStr video_id)
            \<and> (\<exists>r \<in> set (frames_collection idx).
                  hit_id h = rec_id r \<and> hit_metadata h = rec_metadata r))
       \<and> (\<forall>h \<in> set (sr_transcript res).
            map_of (hit_metadata h) ''video_id'' = Some (MStr video_id)
            \<and> (\<exists>r \<in> set (transcripts_collection idx).
                  hit_id h = rec_id r \<and> hit_metadata h = rec_metadata r))
       \<and> (\<forall>other. other \<noteq> video_id \<longrightarrow>
            (\<forall>h \<in> set (sr_frames res) \<union> set (sr_transcript res).
               map_of (hit_metadata h) ''video_id'' \<noteq> Some (MStr other)))"
proof -
  from assms obtain qe where qe: "enc query = Inr qe"
    and fr: "sr_frames res = coll_query (frames_collection idx) qe max_results [(''video_id'', MStr video_id)]"
    and tr: "sr_transcript res = coll_query (transcripts_collection idx) qe max_results [(''video_id'', MStr video_id)]"
    by (auto simp: search_relevant_content_def split: sum.splits)
  have a: "map_of (hit_metadata h) ''video_id'' = Some (MStr video_id)
            \<and> (\<exists>r \<in> set c. hit_id h = rec_id r \<and> hit_metadata h = rec_metadata r)"
    if "h \<in> set (coll_query c qe max_results [(''video_id'', MStr video_id)])" for h c
  proof -
    from coll_query_hits[OF that] obtain r where r: "r \<in> set c"
      "matches [(''video_id'', MStr video_id)] (rec_metadata r)" "h = to_hit qe r" by blast
    then show ?thesis by (auto simp: matches_video_id to_hit_def)
  qed
  have f: "\<forall>h \<in> set (sr_frames res).
            map_of (hit_metadata h) ''video_id'' = Some (MStr video_id)
            \<and> (\<exists>r \<in> set (frames_collection idx).
                  hit_id h = rec_id r \<and> hit_metadata h = rec_metadata r)"
    unfolding fr using a by blast
  have t: "\<forall>h \<in> set (sr_transcript res).
            map_of (hit_metadata h) ''video_id'' = Some (MStr video_id)
            \<and> (\<exists>r \<in> set (transcripts_collection idx).
                  hit_id h = rec_id r \<and> hit_metadata h = rec_metadata r)"
    unfolding tr using a by blast
  from f t show ?thesis by auto
qed

theorem search_relevant_content_isolation_witness:
  "search_relevant_content demo_enc demo_index ''where is the cat'' ''A'' 10 =
     Inr \<lparr>sr_frames =
            [to_hit [1, 0] (frame_record (demo_frame ''fA1'' ''A'' 1 ''a dog'')
                              ''Scene: a dog | Timestamp: 1.00 seconds'' [0, 1]),
             to_hit [1, 0] (frame_record (demo_frame ''fA2'' ''A'' 2 ''a tree'')
                              ''Scene: a tree | Timestamp: 2.00 seconds'' [- 1, 0])],
          sr_transcript = []\<rparr>
   \<and> map rec_id (frames_collection demo_index) = [''fA1'', ''fB1'', ''fA2'']
   \<and> cosine_distance [1, 0] [1, 0] < cosine_distance [1, 0] [0, 1]
   \<and> list_all (\<lambda>h. map_of (hit_metadata h) ''video_id'' = Some (MStr ''A''))
        (sr_frames (projr (search_relevant_content demo_enc demo_index ''where is the cat'' ''A'' 10)))"
proof -
  note ev = demo_search
  from search_relevant_content_isolation[OF ev]
  have "list_all (\<lambda>h. map_of (hit_metadata h) ''video_id'' = Some (MStr ''A''))
        (sr_frames (projr (search_relevant_content demo_enc demo_index ''where is the cat'' ''A'' 10)))"
    unfolding ev by (simp add: list_all_iff)
  then show ?thesis
    using ev by (simp add: demo_index_frames demo_dists frame_record_def demo_frame_def)
qed

text \<open>
  Claim C4.  \<open>get_context_for_chat\<close> returns at most \<open>max_frames\<close> frame entries (none when
  \<open>max_frames\<close> is not positive), however many frames the video has in the index; the
  entries are the first \<open>max_frames\<close> of the relevance-sorted hits of a search with
  \<open>k = 2 * max_frames\<close>.
\<close>

theorem context_size_bounded:
  assumes "get_context_for_chat enc idx query video_id max_frames = Inr ctx"
  shows "int (length (ctx_frames ctx)) \<le> max 0 max_frames
       \<and> (\<exists>res entries.
             search_relevant_content enc idx query video_id (max_frames * 2) = Inr res
             \<and> length (sr_frames res) \<le> nat (max_frames * 2)
             \<and> frame_entries (sr_frames res) [] = Inr entries
             \<and> ctx_frames ctx = py_slice (sort_by_relevance entries) 0 max_frames)"
proof -
  from assms obtain res entries where
    res: "search_relevant_content enc idx query video_id (max_frames * 2) = Inr res"
    and ent: "frame_entries (sr_frames res) [] = Inr entries"
    and ctx: "ctx_frames ctx = py_slice (sort_by_relevance entries) 0 max_frames"
    by (auto simp: get_context_for_chat_def split: sum.splits)
  from res have len: "length (sr_frames res) \<le> nat (max_frames * 2)"
    by (auto simp: search_relevant_content_def coll_query_length split: sum.splits)
  have "length entries = length (sr_frames res)"
    using frame_entries_acc[OF ent] by (metis append_Nil length_map list.simps(8))
  then have "length (sort_by_relevance entries) \<le> nat (max_frames * 2)"
    using len by (simp add: sort_by_relevance_def)
  then have "int (length (ctx_frames ctx)) \<le> max 0 max_frames"
    unfolding ctx by (rule py_slice_prefix_length)
  with res len ent ctx show ?thesis by blast
qed

theorem context_size_bounded_witness:
  "get_context_for_chat demo_enc demo_index ''where is the cat'' ''A'' 1 =
     Inr \<lparr>ctx_frames = [\<lparr>fc_frame_id = ''fA1'', fc_image_path = MStr ''/static/frames/A/frame_0000.jpg'',
                          fc_timestamp = MFloat 1,
                          fc_description = ''Scene: a dog | Timestamp: 1.00 seconds'',
                          fc_relevance_score = 0\<rparr>],
          ctx_transcript = []\<rparr>
   \<and> length (filter (\<lambda>r. map_of (rec_metadata r) ''video_id'' = Some (MStr ''A''))
               (frames_collection demo_index)) = 2
   \<and> int (length (ctx_frames (projr
         (get_context_for_chat demo_enc demo_index ''where is the cat'' ''A'' 1)))) \<le> max 0 1"
proof -
  have ev: "get_context_for_chat demo_enc demo_index ''where is the cat'' ''A'' 1 =
     Inr \<lparr>ctx_frames = [\<lparr>fc_frame_id = ''fA1'', fc_image_path = MStr ''/static/frames/A/frame_0000.jpg'',
                          fc_timestamp = MFloat 1,
                          fc_description = ''Scene: a dog | Timestamp: 1.00 seconds'',
                          fc_relevance_score = 0\<rparr>],
          ctx_transcript = []\<rparr>"
    by (simp add: get_context_for_chat_def search_relevant_content_def demo_enc_def
          demo_index_frames demo_index_other coll_query_def matches_def frame_record_def
          demo_frame_def to_hit_def demo_dists sort_by_relevance_def py_slice_def slice_bound_def)
  from context_size_bounded[OF ev] show ?thesis
    unfolding ev by (simp add: demo_index_frames frame_record_def demo_frame_def)
qed

text \<open>
  Claim C3, as amended.  In the frame list that \<open>get_context_for_chat\<close> returns the
  relevance scores are non-increasing, and each score is \<open>1 - d\<close> for the cosine distance
  \<open>d\<close> between the query's embedding and an indexed frame of the requested video.  No
  clamping takes place: the scores lie in \<open>[0, 1]\<close> when all those distances lie in
  \<open>[0, 1]\<close>.
\<close>

theorem context_scores_from_distances:
  assumes "get_context_for_chat enc idx query video_id max_frames = Inr ctx"
  shows "sorted_wrt (\<ge>) (map fc_relevance_score (ctx_frames ctx))
       \<and> (\<exists>qe. enc query = Inr qe
            \<and> (\<forall>f \<in> set (ctx_frames ctx).
                  \<exists>r \<in> set (frames_collection idx).
                    map_of (rec_metadata r) ''video_id'' = Some (MStr video_id)
                    \<and> fc_frame_id f = rec_id r
                    \<and> fc_relevance_score f = 1 - cosine_distance qe (rec_embedding r))
            \<and> ((\<forall>r \<in> set (frames_collection idx).
                    map_of (rec_metadata r) ''video_id'' = Some (MStr video_id) \<longrightarrow>
                    0 \<le> cosine_distance qe (rec_embedding r)
                    \<and> cosine_distance qe (rec_embedding r) \<le> 1)
                 \<longrightarrow> (\<forall>f \<in> set (ctx_frames ctx).
                        0 \<le> fc_relevance_score f \<and> fc_relevance_score f \<le> 1)))"
proof -
  from assms obtain res entries where
    res: "search_relevant_content enc idx query video_id (max_frames * 2) = Inr res"
    and ent: "frame_entries (sr_frames res) [] = Inr entries"
    and ctx: "ctx_frames ctx = py_slice (sort_by_relevance entries) 0 max_frames"
    by (auto simp: get_context_for_chat_def split: sum.splits)
  from res obtain qe where qe: "enc query = Inr qe"
    and fr: "sr_frames res = coll_query (frames_collection idx) qe (max_frames * 2) [(''video_id'', MStr video_id)]"
    by (auto simp: search_relevant_content_def split: sum.splits)
  have sorted: "sorted_wrt (\<ge>) (map fc_relevance_score (ctx_frames ctx))"
    unfolding ctx py_slice_prefix take_map[symmetric]
    by (intro sorted_wrt_take sort_by_relevance_desc)
  have src: "\<exists>r \<in> set (frames_collection idx).
                    map_of (rec_metadata r) ''video_id'' = Some (MStr video_id)
                    \<and> fc_frame_id f = rec_id r
                    \<and> fc_relevance_score f = 1 - cosine_distance qe (rec_embedding r)"
    if "f \<in> set (ctx_frames ctx)" for f
  proof -
    from that have "f \<in> set entries"
      using py_slice_prefix_set[of "sort_by_relevance entries" max_frames]
      by (auto simp: ctx sort_by_relevance_set)
    then have "(fc_frame_id f, fc_relevance_score f) \<in> set (map (\<lambda>f. (fc_frame_id f, fc_relevance_score f)) entries)"
      by force
    then obtain h where h: "h \<in> set (sr_frames res)" "fc_frame_id f = hit_id h"
      "fc_relevance_score f = 1 - hit_distance h"
      unfolding frame_entries_zip[OF ent] by auto
    from coll_query_hits[OF h(1)[unfolded fr]] obtain r where
      "r \<in> set (frames_collection idx)" "matches [(''video_id'', MStr video_id)] (rec_metadata r)"
      "h = to_hit qe r" by blast
    with h show ?thesis by (auto simp: matches_video_id to_hit_def)
  qed
  have bnd: "\<forall>f \<in> set (ctx_frames ctx). 0 \<le> fc_relevance_score f \<and> fc_relevance_score f \<le> 1"
    if "\<forall>r \<in> set (frames_collection idx).
                    map_of (rec_metadata r) ''video_id'' = Some (MStr video_id) \<longrightarrow>
                    0 \<le> cosine_distance qe (rec_embedding r)
                    \<and> cosine_distance qe (rec_embedding r) \<le> 1"
  proof
    fix f assume "f \<in> set (ctx_frames ctx)"
    from src[OF this] that show "0 \<le> fc_relevance_score f \<and> fc_relevance_score f \<le> 1"
      by fastforce
  qed
  from sorted qe src bnd show ?thesis by blast
qed

theorem context_scores_from_distances_witness:
  "get_context_for_chat demo_enc demo_index ''find the dog'' ''A'' 5 =
     Inr \<lparr>ctx_frames =
            [\<lparr>fc_frame_id = ''fA1'', fc_image_path = MStr ''/static/frames/A/frame_0000.jpg'',
              fc_timestamp = MFloat 1,
              fc_description = ''Scene: a dog | Timestamp: 1.00 seconds'',
              fc_relevance_score = 1\<rparr>,
             \<lparr>fc_frame_id = ''fA2'', fc_image_path = MStr ''/static/frames/A/frame_0000.jpg'',
              fc_timestamp = MFloat 2,
              fc_description = ''Scene: a tree | Timestamp: 2.00 seconds'',
              fc_relevance_score = 0\<rparr>],
          ctx_transcript = []\<rparr>
   \<and> sorted_wrt (\<ge>) (map fc_relevance_score (ctx_frames (projr
         (get_context_for_chat demo_enc demo_index ''find the dog'' ''A'' 5))))"
proof -
  have d: "cosine_distance [0, 1] [0, 1] = 0" "cosine_distance [0, 1] [1, 0] = 1"
          "cosine_distance [0, 1] [- 1, 0] = 1"
    by (simp_all add: cosine_distance_def dot_def)
  have ev: "get_context_for_chat demo_enc demo_index ''find the dog'' ''A'' 5 =
     Inr \<lparr>ctx_frames =
            [\<lparr>fc_frame_id = ''fA1'', fc_image_path = MStr ''/static/frames/A/frame_0000.jpg'',
              fc_timestamp = MFloat 1,
              fc_description = ''Scene: a dog | Timestamp: 1.00 seconds'',
              fc_relevance_score = 1\<rparr>,
             \<lparr>fc_frame_id = ''fA2'', fc_image_path = MStr ''/static/frames/A/frame_0000.jpg'',
              fc_timestamp = MFloat 2,
              fc_description = ''Scene: a tree | Timestamp: 2.00 seconds'',
              fc_relevance_score = 0\<rparr>],
          ctx_transcript = []\<rparr>"
    by (simp add: get_context_for_chat_def search_relevant_content_def demo_enc_def
          demo_index_frames demo_index_other coll_query_def matches_def frame_record_def
          demo_frame_def to_hit_def d sort_by_relevance_def py_slice_def slice_bound_def)
  from context_scores_from_distances[OF ev]
  have "sorted_wrt (\<ge>) (map fc_relevance_score (ctx_frames (projr
         (get_context_for_chat demo_enc demo_index ''find the dog'' ''A'' 5))))"
    unfolding ev by simp
  with ev show ?thesis by simp
qed

text \<open>
  Claim C3 as stated fails: a frame whose embedding points away from the query's has
  cosine distance 2, and its relevance score is \<open>-1\<close>.
\<close>

theorem relevance_score_below_zero:
  "get_context_for_chat demo_enc demo_index ''where is the cat'' ''A'' 5 =
     Inr \<lparr>ctx_frames =
            [\<lparr>fc_frame_id = ''fA1'', fc_image_path = MStr ''/static/frames/A/frame_0000.jpg'',
              fc_timestamp = MFloat 1,
              fc_description = ''Scene: a dog | Timestamp: 1.00 seconds'',
              fc_relevance_score = 0\<rparr>,
             \<lparr>fc_frame_id = ''fA2'', fc_image_path = MStr ''/static/frames/A/frame_0000.jpg'',
              fc_timestamp = MFloat 2,
              fc_description = ''Scene: a tree | Timestamp: 2.00 seconds'',
              fc_relevance_score = - 1\<rparr>],
          ctx_transcript = []\<rparr>
   \<and> \<not> list_all (\<lambda>f. 0 \<le> fc_relevance_score f \<and> fc_relevance_score f \<le> 1)
          (ctx_frames (projr (get_context_for_chat demo_enc demo_index ''where is the cat'' ''A'' 5)))"
  by (simp add: get_context_for_chat_def search_relevant_content_def demo_enc_def
          demo_index_frames demo_index_other coll_query_def matches_def frame_record_def
          demo_frame_def to_hit_def demo_dists sort_by_relevance_def py_slice_def slice_bound_def)

section \<open>Properties of ingestion\<close>

lemma coll_add_ids:
  "set (map rec_id (coll_add r c)) = insert (rec_id r) (set (map rec_id c))"
  by (induction c) auto

lemma coll_add_distinct:
  "distinct (map rec_id c) \<Longrightarrow> distinct (map rec_id (coll_add r c))"
proof (induction c)
  case Nil
  then show ?case by simp
next
  case (Cons x xs)
  then show ?case using coll_add_ids[of r xs] by auto
qed









lemma add_frames_ok:
  "\<forall>f \<in> set pre. \<exists>v. enc (create_frame_description fmt2f f) = Inr v \<Longrightarrow>
   fst (add_frames enc fmt2f pre idx) = Inr ()"
  by (induction pre arbitrary: idx) (auto simp: Let_def)

lemma add_frames_append:
  "fst (add_frames enc fmt2f pre idx) = Inr () \<Longrightarrow>
   add_frames enc fmt2f (pre @ rest) idx = add_frames enc fmt2f rest (snd (add_frames enc fmt2f pre idx))"
  by (induction pre arbitrary: idx) (auto simp: Let_def split: sum.splits)

lemma add_chunks_ok:
  "\<forall>c \<in> set pre. \<exists>v. enc c = Inr v \<Longrightarrow> fst (add_chunks enc vi i pre idx) = Inr ()"
  by (induction pre arbitrary: i idx) auto

lemma add_chunks_append:
  "fst (add_chunks enc vi i pre idx) = Inr () \<Longrightarrow>
   add_chunks enc vi i (pre @ rest) idx
     = add_chunks enc vi (i + length pre) rest (snd (add_chunks enc vi i pre idx))"
  by (induction pre arbitrary: i idx) (auto split: sum.splits)

lemma add_video_content_transcript_failure:
  assumes "vi_transcript video_info = Some t" and "t \<noteq> []"
    and "chunk_transcript t 500 = Inr chunks"
    and "add_chunks enc video_info 0 chunks idx = (Inl e, idx1)"
  shows "add_video_content enc fmt2f video_info frames idx = (Inl e, idx1)"
  using assms by (simp add: add_video_content_def add_transcript_def)

text \<open>
  Claim C8, as amended.  \<open>_add_frames\<close> and the chunk loop of \<open>_add_transcript\<close> have no
  handler: when the embedding of one frame raises, the exception leaves \<open>_add_frames\<close>;
  the frames before the failing one have been added, the failing one and all later ones
  are not added, whatever they are.  Independently of any frame, when the embedding of
  one transcript chunk raises, the exception leaves the chunk loop with the earlier
  chunks added and the failing and later chunks not added, and \<open>add_video_content\<close>
  ends with that exception before it reaches the frames.
\<close>

theorem ingestion_stops_at_first_failure:
  "((\<forall>f \<in> set pre. \<exists>v. enc (create_frame_description fmt2f f) = Inr v)
      \<and> enc (create_frame_description fmt2f bad) = Inl e
     \<longrightarrow> add_frames enc fmt2f (pre @ bad # post) idx
           = (Inl e, snd (add_frames enc fmt2f pre idx))
         \<and> fst (add_frames enc fmt2f pre idx) = Inr ())
   \<and> ((\<forall>c \<in> set cpre. \<exists>v. cenc c = Inr v) \<and> cenc cbad = Inl ce
     \<longrightarrow> add_chunks cenc video_info i (cpre @ cbad # cpost) cidx
           = (Inl ce, snd (add_chunks cenc video_info i cpre cidx))
         \<and> fst (add_chunks cenc video_info i cpre cidx) = Inr ())
   \<and> ((\<forall>c \<in> set tpre. \<exists>v. tenc c = Inr v) \<and> tenc tbad = Inl te
        \<and> vi_transcript info = Some t \<and> t \<noteq> []
        \<and> chunk_transcript t 500 = Inr (tpre @ tbad # tpost)
     \<longrightarrow> add_video_content tenc tfmt info frames tidx
           = (Inl te, snd (add_chunks tenc info 0 tpre tidx)))"
proof -
  have fr: "add_frames enc fmt2f (pre @ bad # post) idx
           = (Inl e, snd (add_frames enc fmt2f pre idx))
         \<and> fst (add_frames enc fmt2f pre idx) = Inr ()"
    if a: "\<forall>f \<in> set pre. \<exists>v. enc (create_frame_description fmt2f f) = Inr v"
      and b: "enc (create_frame_description fmt2f bad) = Inl e"
  proof -
    have f1: "fst (add_frames enc fmt2f pre idx) = Inr ()"
      using a by (rule add_frames_ok)
    show ?thesis using b f1 by (simp add: add_frames_append[OF f1] Let_def)
  qed
  have ch: "add_chunks en vi j (xs @ x # ys) ix = (Inl er, snd (add_chunks en vi j xs ix))
         \<and> fst (add_chunks en vi j xs ix) = Inr ()"
    if a: "\<forall>c \<in> set xs. \<exists>v. en c = Inr v" and b: "en x = Inl er"
    for en vi j xs x ys ix er
  proof -
    have c1: "fst (add_chunks en vi j xs ix) = Inr ()"
      using a by (rule add_chunks_ok)
    show ?thesis using b c1 by (simp add: add_chunks_append[OF c1])
  qed
  have tr: "add_video_content tenc tfmt info frames tidx
           = (Inl te, snd (add_chunks tenc info 0 tpre tidx))"
    if a: "\<forall>c \<in> set tpre. \<exists>v. tenc c = Inr v" and b: "tenc tbad = Inl te"
      and c: "vi_transcript info = Some t" "t \<noteq> []"
             "chunk_transcript t 500 = Inr (tpre @ tbad # tpost)"
  proof -
    from ch[OF a b, of info 0 tpost tidx]
    have "add_chunks tenc info 0 (tpre @ tbad # tpost) tidx
            = (Inl te, snd (add_chunks tenc info 0 tpre tidx))" by simp
    with c show ?thesis by (rule add_video_content_transcript_failure)
  qed
  from fr ch tr show ?thesis by blast
qed

text \<open>
  Claim C8 as stated fails: of three frames whose second cannot be embedded, only the
  first reaches the index.
\<close>

theorem later_frames_lost_after_failure:
  "fst (add_frames demo_enc fmt2f_whole
          [demo_frame ''f1'' ''A'' 1 ''a cat'', demo_frame ''f2'' ''A'' 2 ''corrupt'',
           demo_frame ''f3'' ''A'' 3 ''a dog''] empty_index)
     = Inl (ExternalError ''cannot encode'')
   \<and> map rec_id (frames_collection (snd (add_frames demo_enc fmt2f_whole
          [demo_frame ''f1'' ''A'' 1 ''a cat'', demo_frame ''f2'' ''A'' 2 ''corrupt'',
           demo_frame ''f3'' ''A'' 3 ''a dog''] empty_index)))
     = [''f1'']"
  by (simp add: empty_index_def create_frame_description_def demo_frame_def fmt1 fmt2 fmt3
      demo_enc_def frame_record_def Let_def)

lemma demo_corrupt_chunks:
  "chunk_transcript ''a corrupt clip'' 500 = Inr ([] @ ''a corrupt clip'' # [])"
  by code_simp

theorem ingestion_stops_at_first_failure_witness:
  "add_frames demo_enc fmt2f_whole
          ([demo_frame ''f1'' ''A'' 1 ''a cat''] @ demo_frame ''f2'' ''A'' 2 ''corrupt'' #
           [demo_frame ''f3'' ''A'' 3 ''a dog'']) empty_index
     = (Inl (ExternalError ''cannot encode''),
        snd (add_frames demo_enc fmt2f_whole [demo_frame ''f1'' ''A'' 1 ''a cat''] empty_index))
   \<and> add_chunks demo_enc (demo_video ''A'' ''a cat corrupt a dog'') 0
        ([''a cat''] @ ''corrupt'' # [''a dog'']) empty_index
     = (Inl (ExternalError ''cannot encode''),
        snd (add_chunks demo_enc (demo_video ''A'' ''a cat corrupt a dog'') 0 [''a cat'']
               empty_index))
   \<and> add_video_content demo_enc fmt2f_whole (demo_video ''A'' ''a corrupt clip'')
        [demo_frame ''f1'' ''A'' 1 ''a cat''] empty_index
     = (Inl (ExternalError ''cannot encode''), empty_index)"
proof -
  have h1: "\<forall>f \<in> set [demo_frame ''f1'' ''A'' 1 ''a cat''].
              \<exists>v. demo_enc (create_frame_description fmt2f_whole f) = Inr v"
    by (simp add: create_frame_description_def demo_frame_def fmt1 demo_enc_def)
  have h2: "demo_enc (create_frame_description fmt2f_whole (demo_frame ''f2'' ''A'' 2 ''corrupt''))
              = Inl (ExternalError ''cannot encode'')"
    by (simp add: create_frame_description_def demo_frame_def fmt2 demo_enc_def)
  have h3: "\<forall>c \<in> set [''a cat'']. \<exists>v. demo_enc c = Inr v"
    by (simp add: demo_enc_def)
  have h4: "demo_enc ''corrupt'' = Inl (ExternalError ''cannot encode'')"
    by (simp add: demo_enc_def)
  have h5: "\<forall>c \<in> set ([]::string list). \<exists>v. demo_enc c = Inr v"
    by simp
  have h6: "demo_enc ''a corrupt clip'' = Inl (ExternalError ''cannot encode'')"
    by (simp add: demo_enc_def)
  have h7: "vi_transcript (demo_video ''A'' ''a corrupt clip'') = Some ''a corrupt clip''"
    "''a corrupt clip'' \<noteq> []"
    by (simp_all add: demo_video_def)
  note inst = ingestion_stops_at_first_failure[where
      pre = "[demo_frame ''f1'' ''A'' 1 ''a cat'']" and enc = demo_enc and fmt2f = fmt2f_whole
      and bad = "demo_frame ''f2'' ''A'' 2 ''corrupt''" and e = "ExternalError ''cannot encode''"
      and post = "[demo_frame ''f3'' ''A'' 3 ''a dog'']" and idx = empty_index
      and cpre = "[''a cat'']" and cenc = demo_enc and cbad = "''corrupt''"
      and ce = "ExternalError ''cannot encode''"
      and video_info = "demo_video ''A'' ''a cat corrupt a dog''" and i = 0
      and cpost = "[''a dog'']" and cidx = empty_index
      and tpre = "[]" and tenc = demo_enc and tbad = "''a corrupt clip''"
      and te = "ExternalError ''cannot encode''"
      and info = "demo_video ''A'' ''a corrupt clip''" and t = "''a corrupt clip''"
      and tpost = "[]" and tfmt = fmt2f_whole
      and frames = "[demo_frame ''f1'' ''A'' 1 ''a cat'']" and tidx = empty_index]
  from inst h1 h2 have a: "add_frames demo_enc fmt2f_whole
          ([demo_frame ''f1'' ''A'' 1 ''a cat''] @ demo_frame ''f2'' ''A'' 2 ''corrupt'' #
           [demo_frame ''f3'' ''A'' 3 ''a dog'']) empty_index
     = (Inl (ExternalError ''cannot encode''),
        snd (add_frames demo_enc fmt2f_whole [demo_frame ''f1'' ''A'' 1 ''a cat''] empty_index))"
    by blast
  from inst h3 h4 have b: "add_chunks demo_enc (demo_video ''A'' ''a cat corrupt a dog'') 0
        ([''a cat''] @ ''corrupt'' # [''a dog'']) empty_index
     = (Inl (ExternalError ''cannot encode''),
        snd (add_chunks demo_enc (demo_video ''A'' ''a cat corrupt a dog'') 0 [''a cat'']
               empty_index))"
    by blast
  from inst h5 h6 h7 demo_corrupt_chunks
  have "add_video_content demo_enc fmt2f_whole (demo_video ''A'' ''a corrupt clip'')
        [demo_frame ''f1'' ''A'' 1 ''a cat''] empty_index
     = (Inl (ExternalError ''cannot encode''),
        snd (add_chunks demo_enc (demo_video ''A'' ''a corrupt clip'') 0 [] empty_index))"
    by blast
  then have c: "add_video_content demo_enc fmt2f_whole (demo_video ''A'' ''a corrupt clip'')
        [demo_frame ''f1'' ''A'' 1 ''a cat''] empty_index
     = (Inl (ExternalError ''cannot encode''), empty_index)"
    by simp
  from a b c show ?thesis by blast
qed

text \<open>
  The body raises exactly when the provider call it selects raises (the configured
  \<open>LLM_MODEL\<close> contains \<open>gpt-4\<close>).
\<close>

lemma generate_attempt_raises_iff:
  "generate_attempt llm message context use_vision = Inl e \<longleftrightarrow>
     (if use_vision \<and> ctx_frames context \<noteq> [] \<and> openai_client llm
        then openai_vision_call llm message context = Inl e
      else if use_vision \<and> ctx_frames context \<noteq> [] \<and> anthropic_client llm
        then anthropic_vision_call llm message context = Inl e
      else if openai_client llm
        then openai_text_call llm message context = Inl e
      else anthropic_client llm \<and> anthropic_text_call llm message context = Inl e)"
  by (auto simp: generate_attempt_def generate_openai_vision_response_def
        generate_anthropic_vision_response_def generate_text_only_response_def
        generate_openai_text_response_def generate_anthropic_text_response_def
        LLM_MODEL_def split: sum.splits)

text \<open>
  Claim C9.  When the body of \<open>generate_response\<close> raises an exception \<open>e\<close> (from whichever
  provider call it selected), the method returns the response with confidence \<open>0.0\<close>
  and the content \<open>I apologize, but I encountered an error: \<close> followed by \<open>str(e)\<close>;
  the exception does not reach the caller.
\<close>

theorem generate_response_degrades:
  assumes "generate_attempt llm message context use_vision = Inl e"
  shows "generate_response llm message context use_vision start_time end_time
           = \<lparr>resp_content = ''I apologize, but I encountered an error: '' @ err_str e,
              resp_confidence = 0,
              resp_processing_time = end_time - start_time\<rparr>"
  using assms by (simp add: generate_response_def)

theorem generate_response_degrades_witness:
  "generate_attempt demo_llm ''where is the cat'' \<lparr>ctx_frames = [], ctx_transcript = []\<rparr> True
     = Inl (ExternalError ''text request timed out'')
   \<and> generate_response demo_llm ''where is the cat'' \<lparr>ctx_frames = [], ctx_transcript = []\<rparr> True 10 12
     = \<lparr>resp_content = ''I apologize, but I encountered an error: text request timed out'',
        resp_confidence = 0, resp_processing_time = 2\<rparr>"
proof -
  have h: "generate_attempt demo_llm ''where is the cat'' \<lparr>ctx_frames = [], ctx_transcript = []\<rparr> True
     = Inl (ExternalError ''text request timed out'')"
    by (simp add: generate_attempt_def generate_text_only_response_def
          generate_openai_text_response_def demo_llm_def)
  from generate_response_degrades[OF h, of 10 12] h show ?thesis by simp
qed

section \<open>Properties of the routes\<close>

lemma add_chunks_frames:
  "frames_collection (snd (add_chunks enc vi i cs idx)) = frames_collection idx"
  by (induction cs arbitrary: i idx) (auto split: sum.splits)

lemma add_transcript_frames:
  "frames_collection (snd (add_transcript enc vi idx)) = frames_collection idx"
  by (auto simp: add_transcript_def add_chunks_frames split: sum.splits)

lemma add_video_content_no_frames:
  "frames_collection (snd (add_video_content enc fmt2f vi [] idx)) = frames_collection idx"
proof (cases "truthy (vi_transcript vi)")
  case True
  obtain r idx1 where a: "add_transcript enc vi idx = (r, idx1)" by (cases "add_transcript enc vi idx")
  have "frames_collection idx1 = frames_collection idx"
    using add_transcript_frames[of enc vi idx] a by simp
  then show ?thesis using True a by (cases r) (simp_all add: add_video_content_def)
next
  case False
  then show ?thesis by (simp add: add_video_content_def)
qed

lemma process_video_background_frames:
  "frames_collection (rag (process_video_background enc fmt2f processed video_id st))
     = frames_collection (rag st)"
proof (cases processed)
  case (Inl e)
  then show ?thesis by (simp add: process_video_background_def Let_def)
next
  case (Inr vi)
  obtain r rag1 where a: "add_video_content enc fmt2f vi [] (rag st) = (r, rag1)"
    by (cases "add_video_content enc fmt2f vi [] (rag st)")
  have "frames_collection rag1 = frames_collection (rag st)"
    using add_video_content_no_frames[of enc fmt2f vi "rag st"] a by simp
  then show ?thesis using Inr a
    by (cases r) (simp_all add: process_video_background_def Let_def get_video_frames_def)
qed

lemma coll_query_no_match:
  "\<forall>r \<in> set c. \<not> matches wh (rec_metadata r) \<Longrightarrow> coll_query c q k wh = []"
  by (simp add: coll_query_def filter_empty_conv[THEN iffD2])

text \<open>
  Claim C2.  \<open>get_video_frames\<close> returns the empty list, so the background task hands
  \<open>add_video_content\<close> no frame and leaves the frames namespace as it was, whatever
  \<open>process_video\<close> produced.  For a video that had no frame in the index before (its id
  is freshly drawn), a frame query scoped to it returns nothing after processing.
\<close>

theorem process_video_background_adds_no_frames:
  assumes "\<forall>r \<in> set (frames_collection (rag st)).
             map_of (rec_metadata r) ''video_id'' \<noteq> Some (MStr video_id)"
  shows "get_video_frames video_id = []
       \<and> frames_collection (rag (process_video_background enc fmt2f processed video_id st))
           = frames_collection (rag st)
       \<and> coll_query (frames_collection (rag (process_video_background enc fmt2f processed video_id st)))
           q k [(''video_id'', MStr video_id)] = []
       \<and> (\<forall>res. search_relevant_content enc
                   (rag (process_video_background enc fmt2f processed video_id st))
                   query video_id k = Inr res \<longrightarrow> sr_frames res = [])"
proof -
  let ?st' = "process_video_background enc fmt2f processed video_id st"
  have same: "frames_collection (rag ?st') = frames_collection (rag st)"
    by (rule process_video_background_frames)
  have none: "coll_query (frames_collection (rag ?st')) q' k' [(''video_id'', MStr video_id)] = []" for q' k'
    unfolding same using assms by (intro coll_query_no_match) (simp add: matches_video_id)
  have "sr_frames res = []" if "search_relevant_content enc (rag ?st') query video_id k = Inr res" for res
    using that none by (auto simp: search_relevant_content_def split: sum.splits)
  with same none show ?thesis by (simp add: get_video_frames_def)
qed

lemma demo_chunks: "chunk_transcript ''the cat sat on the mat'' 500 = Inr [''the cat sat on the mat'']"
  by code_simp

theorem process_video_background_adds_no_frames_witness:
  "list_all (\<lambda>r. map_of (rec_metadata r) ''video_id'' \<noteq> Some (MStr ''C''))
      (frames_collection (rag demo_state))
   \<and> map rec_id (frames_collection (rag (process_video_background demo_enc fmt2f_whole
         (Inr (demo_video ''C'' ''the cat sat on the mat'')) ''C'' demo_state)))
       = [''fA1'', ''fB1'', ''fA2'']
   \<and> map rec_id (transcripts_collection (rag (process_video_background demo_enc fmt2f_whole
         (Inr (demo_video ''C'' ''the cat sat on the mat'')) ''C'' demo_state)))
       = [''C_transcript_0'']
   \<and> coll_query (frames_collection (rag (process_video_background demo_enc fmt2f_whole
         (Inr (demo_video ''C'' ''the cat sat on the mat'')) ''C'' demo_state)))
         [1, 0] 10 [(''video_id'', MStr ''C'')] = []"
proof -
  have h: "\<forall>r \<in> set (frames_collection (rag demo_state)).
             map_of (rec_metadata r) ''video_id'' \<noteq> Some (MStr ''C'')"
    by (simp add: demo_state_def demo_index_frames frame_record_def demo_frame_def)
  have tr: "map rec_id (transcripts_collection (rag (process_video_background demo_enc fmt2f_whole
         (Inr (demo_video ''C'' ''the cat sat on the mat'')) ''C'' demo_state)))
       = [''C_transcript_0'']"
    by (simp add: process_video_background_def get_video_frames_def add_video_content_def
          add_transcript_def demo_video_def demo_chunks demo_enc_def demo_state_def
          demo_index_other chunk_record_def str_nat.simps digit_char_def Let_def)
  from process_video_background_adds_no_frames[OF h, of demo_enc fmt2f_whole
         "Inr (demo_video ''C'' ''the cat sat on the mat'')" "[1, 0]" 10]
  have "frames_collection (rag (process_video_background demo_enc fmt2f_whole
         (Inr (demo_video ''C'' ''the cat sat on the mat'')) ''C'' demo_state))
           = frames_collection (rag demo_state)"
    and "coll_query (frames_collection (rag (process_video_background demo_enc fmt2f_whole
         (Inr (demo_video ''C'' ''the cat sat on the mat'')) ''C'' demo_state)))
         [1, 0] 10 [(''video_id'', MStr ''C'')] = []"
    by blast+
  with h tr show ?thesis
    by (simp add: list_all_iff demo_state_def demo_index_frames frame_record_def demo_frame_def)
qed

lemma add_chat_message_ids:
  "set (map rec_id (chat_collection (snd (add_chat_message enc m idx))))
     \<subseteq> insert (cm_id m) (set (map rec_id (chat_collection idx)))"
proof (cases "enc (cm_content m)")
  case (Inl e)
  then show ?thesis by (auto simp: add_chat_message_def)
next
  case (Inr v)
  have "rec_id (message_record m v) = cm_id m" by (simp add: message_record_def)
  then show ?thesis
    using Inr coll_add_ids[of "message_record m v" "chat_collection idx"]
    by (simp add: add_chat_message_def)
qed

text \<open>
  Claim C7 asks that both messages of a chat turn reach the chat namespace.
  \<open>chat_with_video\<close> calls \<open>add_chat_message\<close> for the user message only and appends
  the assistant message to \<open>chat_messages_db\<close> alone: an assistant id that differs from
  the user message's id and is not in the chat namespace before the turn is not in it
  after the turn either.
\<close>

theorem assistant_message_not_indexed:
  assumes "ti_assistant_id ti \<noteq> ti_message_id ti"
    and "ti_assistant_id ti \<notin> set (map rec_id (chat_collection (rag st)))"
  shows "ti_assistant_id ti \<notin>
           set (map rec_id (chat_collection (rag (snd (chat_with_video enc llm ti request st)))))"
proof -
  have sub: "set (map rec_id (chat_collection (rag (snd (chat_with_video enc llm ti request st)))))
          \<subseteq> insert (ti_message_id ti) (set (map rec_id (chat_collection (rag st))))"
  proof (cases "get_context_for_chat enc (rag st) (req_message request) (req_video_id request)
             (req_max_context_frames request)")
    case (Inl e)
    then show ?thesis by (auto simp: chat_with_video_def)
  next
    case (Inr ctx)
    define m where "m = \<lparr>cm_id = ti_message_id ti, cm_video_id = req_video_id request,
                  cm_role = ''user'', cm_content = req_message request,
                  cm_timestamp = ti_now_user ti,
                  cm_context_frames = map fc_frame_id (ctx_frames ctx)\<rparr>"
    obtain r rag1 where a: "add_chat_message enc m (rag st) = (r, rag1)"
      by (cases "add_chat_message enc m (rag st)")
    have "set (map rec_id (chat_collection rag1))
            \<subseteq> insert (ti_message_id ti) (set (map rec_id (chat_collection (rag st))))"
      using add_chat_message_ids[of enc m "rag st"] a by (simp add: m_def)
    then show ?thesis
      using Inr a unfolding chat_with_video_def m_def[symmetric] Let_def
      by (cases r) (auto simp: m_def[symmetric] split: sum.splits)
  qed
  with assms show ?thesis by blast
qed

lemma demo_chat_collection:
  "map rec_id (chat_collection (rag (snd (chat_with_video demo_enc demo_llm demo_turn demo_request demo_state))))
     = [''msg-user'']"
  by (simp add: chat_with_video_def get_context_for_chat_def search_relevant_content_def demo_enc_def
        demo_index_frames demo_index_other coll_query_def matches_def frame_record_def
        demo_frame_def to_hit_def demo_dists sort_by_relevance_def py_slice_def slice_bound_def
        demo_state_def demo_request_def demo_turn_def add_chat_message_def message_record_def
        Let_def)

lemma demo_chat_db:
  "map (\<lambda>m. (cm_id m, cm_role m, cm_content m))
     (the (chat_messages_db (snd (chat_with_video demo_enc demo_llm demo_turn demo_request demo_state)) ''A''))
     = [(''msg-user'', ''user'', ''where is the cat''),
        (''msg-assistant'', ''assistant'',
         ''I apologize, but I encountered an error: vision request timed out'')]"
  by (simp add: chat_with_video_def get_context_for_chat_def search_relevant_content_def demo_enc_def
        demo_index_frames demo_index_other coll_query_def matches_def frame_record_def
        demo_frame_def to_hit_def demo_dists sort_by_relevance_def py_slice_def slice_bound_def
        demo_state_def demo_request_def demo_turn_def add_chat_message_def message_record_def
        generate_response_def generate_attempt_def generate_openai_vision_response_def
        demo_llm_def LLM_MODEL_def db_append_def Let_def)

lemma demo_chat_returns:
  "map_sum id cr_message_id (fst (chat_with_video demo_enc demo_llm demo_turn demo_request demo_state))
     = Inr ''msg-assistant''"
  by (simp add: chat_with_video_def get_context_for_chat_def search_relevant_content_def demo_enc_def
        demo_index_frames demo_index_other coll_query_def matches_def frame_record_def
        demo_frame_def to_hit_def demo_dists sort_by_relevance_def py_slice_def slice_bound_def
        demo_state_def demo_request_def demo_turn_def add_chat_message_def message_record_def
        generate_response_def generate_attempt_def generate_openai_vision_response_def
        demo_llm_def LLM_MODEL_def db_append_def Let_def)

theorem assistant_message_not_indexed_witness:
  "ti_assistant_id demo_turn \<noteq> ti_message_id demo_turn
   \<and> ti_assistant_id demo_turn \<notin> set (map rec_id (chat_collection (rag demo_state)))
   \<and> map_sum id cr_message_id (fst (chat_with_video demo_enc demo_llm demo_turn demo_request demo_state))
       = Inr ''msg-assistant''
   \<and> map (\<lambda>m. (cm_id m, cm_role m, cm_content m))
       (the (chat_messages_db (snd (chat_with_video demo_enc demo_llm demo_turn demo_request demo_state)) ''A''))
       = [(''msg-user'', ''user'', ''where is the cat''),
          (''msg-assistant'', ''assistant'',
           ''I apologize, but I encountered an error: vision request timed out'')]
   \<and> map rec_id (chat_collection (rag (snd
         (chat_with_video demo_enc demo_llm demo_turn demo_request demo_state)))) = [''msg-user'']
   \<and> ti_assistant_id demo_turn \<notin> set (map rec_id (chat_collection (rag (snd
         (chat_with_video demo_enc demo_llm demo_turn demo_request demo_state)))))"
proof -
  have h1: "ti_assistant_id demo_turn \<noteq> ti_message_id demo_turn"
    by (simp add: demo_turn_def)
  have h2: "ti_assistant_id demo_turn \<notin> set (map rec_id (chat_collection (rag demo_state)))"
    by (simp add: demo_state_def demo_index_other)
  from assistant_message_not_indexed[OF h1 h2, of demo_enc demo_llm demo_request]
       h1 h2 demo_chat_returns demo_chat_db demo_chat_collection
  show ?thesis by blast
qed

end
